theory Spec2Isabelle
  imports Main "HOL-Library.Word"
begin

unbundle bit_operations_syntax

section \<open>JavaScript values and IEEE-754 numbers\<close>

text \<open>
  A JavaScript Number is modelled by its IEEE-754 binary64 bit pattern: sign (bit 63),
  biased exponent (bits 62..52) and fraction (bits 51..0). This is what
  \<^verbatim>\<open>Buffer.writeDouble*\<close>, \<^verbatim>\<open>Buffer.readDouble*\<close> and \<^verbatim>\<open>Float64Array.of\<close> expose: they
  copy the eight bytes of the pattern, unchanged, in the requested byte order. NaN
  patterns that differ are kept apart, as the platform copies them.
\<close>

type_synonym byte = "8 word"
type_synonym f64 = "64 word"

datatype endianness = LE | BE

datatype jsval =
    Undefined
  | Null
  | Bool bool
  | Num f64
  | Error string

text \<open>An argument of the toolbox functions: a value as above, or a \<^verbatim>\<open>Buffer\<close>.\<close>

datatype arg =
    Val jsval
  | Buffer "byte list"

datatype error = TypeError | RangeError

text \<open>Sequencing of fallible calls: an exception thrown by the first call propagates.\<close>

fun and_then :: "'e + 'a \<Rightarrow> ('a \<Rightarrow> 'e + 'b) \<Rightarrow> 'e + 'b" where
  "and_then (Inl e) f = Inl e"
| "and_then (Inr x) f = f x"

definition f64_sign :: "f64 \<Rightarrow> bool" where
  "f64_sign w = bit w 63"

definition f64_exp :: "f64 \<Rightarrow> int" where
  "f64_exp w = uint (drop_bit 52 w AND 0x7FF)"

definition f64_frac :: "f64 \<Rightarrow> int" where
  "f64_frac w = uint (w AND 0xFFFFFFFFFFFFF)"

definition is_nan :: "f64 \<Rightarrow> bool" where
  "is_nan w = (f64_exp w = 2047 \<and> f64_frac w \<noteq> 0)"

definition is_finite :: "f64 \<Rightarrow> bool" where
  "is_finite w = (f64_exp w \<noteq> 2047)"

section \<open>IEEE-754 arithmetic on bit patterns\<close>

text \<open>
  A finite number with pattern \<open>w\<close> has magnitude \<open>M * 2 ^ K\<close> for the pair
  \<open>(M, K) = f64_mant_exp w\<close>; subnormals have a zero exponent field.
\<close>

definition f64_mant_exp :: "f64 \<Rightarrow> int \<times> int" where
  "f64_mant_exp w =
     (if f64_exp w = 0 then (f64_frac w, - 1074)
      else (2 ^ 52 + f64_frac w, f64_exp w - 1075))"

function bitlen :: "int \<Rightarrow> nat" where
  "bitlen n = (if n \<le> 0 then 0 else Suc (bitlen (n div 2)))"
  by pat_completeness auto
termination
  by (relation "measure nat") auto

definition f64_NaN :: f64 where
  "f64_NaN = 0x7FF8000000000000"

definition f64_infinity :: f64 where
  "f64_infinity = 0x7FF0000000000000"

definition with_sign :: "bool \<Rightarrow> f64 \<Rightarrow> f64" where
  "with_sign s w = (if s then w OR 0x8000000000000000 else w)"

text \<open>Division by a power of two, rounding to nearest and ties to even.\<close>

definition shift_round :: "int \<Rightarrow> int \<Rightarrow> int" where
  "shift_round m s =
     (if s \<le> 0 then m * 2 ^ nat (- s)
      else (let q = m div 2 ^ nat s; r = m mod 2 ^ nat s; h = 2 ^ nat (s - 1)
            in if r > h \<or> (r = h \<and> odd q) then q + 1 else q))"

text \<open>The number nearest to \<open>(-1)^s * m * 2 ^ k\<close> (for \<open>m \<ge> 0\<close>), as the platform's
  arithmetic rounds every exact result: to nearest, ties to even, overflowing to infinity.\<close>

definition f64_round :: "bool \<Rightarrow> int \<Rightarrow> int \<Rightarrow> f64" where
  "f64_round s m k =
     (if m = 0 then with_sign s 0
      else (let p = max (int (bitlen m) - 1 + k) (- 1022);
                bits = (p + 1022) * 2 ^ 52 + shift_round m (p - 52 - k)
            in with_sign s (if bits \<ge> 0x7FF0000000000000 then f64_infinity else word_of_int bits)))"

definition f64_of_int :: "int \<Rightarrow> f64" where
  "f64_of_int n = f64_round (n < 0) \<bar>n\<bar> 0"

definition f64_mul :: "f64 \<Rightarrow> f64 \<Rightarrow> f64" where
  "f64_mul a b =
     (let s = (f64_sign a \<noteq> f64_sign b); (ma, ka) = f64_mant_exp a; (mb, kb) = f64_mant_exp b
      in if is_nan a \<or> is_nan b then f64_NaN
         else if \<not> is_finite a then (if mb = 0 \<and> is_finite b then f64_NaN else with_sign s f64_infinity)
         else if \<not> is_finite b then (if ma = 0 then f64_NaN else with_sign s f64_infinity)
         else f64_round s (ma * mb) (ka + kb))"

text \<open>\<^verbatim>\<open>Math.round\<close>: the nearest integer, ties towards plus infinity; the sign of a zero
  result is the sign of the argument. Numbers of magnitude \<open>2 ^ 52\<close> or more, infinities and
  NaN are returned unchanged.\<close>

definition Math_round :: "f64 \<Rightarrow> f64" where
  "Math_round x =
     (if f64_exp x \<ge> 1075 then x
      else (let (m, k) = f64_mant_exp x;
                v = (if f64_sign x then - m else m);
                n = (2 * v + 2 ^ nat (- k)) div 2 ^ nat (1 - k)
            in if n = 0 then with_sign (f64_sign x) 0 else f64_of_int n))"

text \<open>\<^verbatim>\<open>Math.ceil\<close>: the least integer not below the argument.\<close>

definition Math_ceil :: "f64 \<Rightarrow> f64" where
  "Math_ceil x =
     (if f64_exp x \<ge> 1075 then x
      else (let (m, k) = f64_mant_exp x;
                v = (if f64_sign x then - m else m);
                n = - ((- v) div 2 ^ nat (- k))
            in if n = 0 then with_sign (f64_sign x) 0 else f64_of_int n))"

text \<open>Comparison of numbers: the patterns are sign and magnitude, so a signed key orders
  them; both zeros get key 0 and NaN compares false with everything.\<close>

definition f64_key :: "f64 \<Rightarrow> int" where
  "f64_key w = (if f64_sign w then - uint (w AND 0x7FFFFFFFFFFFFFFF) else uint w)"

definition f64_lt :: "f64 \<Rightarrow> f64 \<Rightarrow> bool" where
  "f64_lt a b = (\<not> is_nan a \<and> \<not> is_nan b \<and> f64_key a < f64_key b)"


definition f64_sub :: "f64 \<Rightarrow> f64 \<Rightarrow> f64" where
  "f64_sub a b =
     (let (ma, ka) = f64_mant_exp a; (mb, kb) = f64_mant_exp b; k = min ka kb;
          d = (if f64_sign a then - ma else ma) * 2 ^ nat (ka - k)
              - (if f64_sign b then - mb else mb) * 2 ^ nat (kb - k)
      in if is_nan a \<or> is_nan b then f64_NaN
         else if \<not> is_finite a then
           (if \<not> is_finite b \<and> f64_sign a = f64_sign b then f64_NaN else a)
         else if \<not> is_finite b then with_sign (\<not> f64_sign b) f64_infinity
         else if d = 0 then with_sign (f64_sign a \<and> \<not> f64_sign b) 0
         else f64_round (d < 0) \<bar>d\<bar> k)"

text \<open>\<^verbatim>\<open>Math.max\<close> of two numbers: NaN if either is NaN, and \<open>+0\<close> is larger than \<open>-0\<close>.\<close>

definition Math_max :: "f64 \<Rightarrow> f64 \<Rightarrow> f64" where
  "Math_max a b =
     (if is_nan a \<or> is_nan b then f64_NaN
      else if f64_key a < f64_key b then b
      else if f64_key b < f64_key a then a
      else if f64_sign a then b else a)"

text \<open>The conversions that the language applies to operands: \<open>ToNumber\<close> (for
  \<^verbatim>\<open>Math.max\<close> and \<^verbatim>\<open><\<close>) and \<open>ToBoolean\<close> (for \<^verbatim>\<open>if\<close>, \<^verbatim>\<open>!\<close> and \<^verbatim>\<open>||\<close>).\<close>

fun to_number :: "jsval \<Rightarrow> f64" where
  "to_number Undefined = f64_NaN"
| "to_number Null = 0"
| "to_number (Bool b) = (if b then f64_of_int 1 else 0)"
| "to_number (Num w) = w"
| "to_number (Error m) = f64_NaN"

fun truthy :: "jsval \<Rightarrow> bool" where
  "truthy Undefined = False"
| "truthy Null = False"
| "truthy (Bool b) = b"
| "truthy (Num w) = (\<not> is_nan w \<and> f64_key w \<noteq> 0)"
| "truthy (Error m) = True"

definition js_or :: "jsval \<Rightarrow> jsval \<Rightarrow> jsval" where
  "js_or a b = (if truthy a then a else b)"

text \<open>\<^verbatim>\<open>Number.parseInt(s, 10)\<close>: leading (ASCII) white space, an optional sign, then the
  longest prefix of decimal digits; NaN without a digit. An absent array element is
  \<open>undefined\<close>, whose string has no digit.\<close>

definition is_space :: "char \<Rightarrow> bool" where
  "is_space ch = ((of_char ch :: nat) \<in> set [0x09, 0x0A, 0x0B, 0x0C, 0x0D, 0x20])"

definition is_digit :: "char \<Rightarrow> bool" where
  "is_digit ch = (48 \<le> (of_char ch :: nat) \<and> (of_char ch :: nat) \<le> 57)"

definition digits_value :: "string \<Rightarrow> int" where
  "digits_value ds = foldl (\<lambda>acc ch. acc * 10 + (of_char ch - 48)) 0 ds"

definition parseInt :: "string option \<Rightarrow> f64" where
  "parseInt arg =
     (case arg of
        None \<Rightarrow> f64_NaN
      | Some str \<Rightarrow>
          (let s = dropWhile is_space str;
               neg = (s \<noteq> [] \<and> hd s = CHR ''-'');
               s' = (if s \<noteq> [] \<and> (hd s = CHR ''-'' \<or> hd s = CHR ''+'') then tl s else s);
               z = takeWhile is_digit s'
           in if z = [] then f64_NaN else f64_round neg (digits_value z) 0))"

text \<open>An array element, \<open>undefined\<close> beyond the end.\<close>

definition nth_opt :: "'a list \<Rightarrow> nat \<Rightarrow> 'a option" where
  "nth_opt xs n = (if n < length xs then Some (xs ! n) else None)"

section \<open>toolbox.js\<close>

text \<open>\<^verbatim>\<open>mustBeNumber(arg, finite)\<close>: throws a TypeError unless \<open>arg\<close> is a number
  (and a finite one when \<open>finite\<close> is set).\<close>

fun mustBeNumber :: "arg \<Rightarrow> bool \<Rightarrow> error + unit" where
  "mustBeNumber (Val (Num w)) fin = (if fin \<and> \<not> is_finite w then Inl TypeError else Inr ())"
| "mustBeNumber _ fin = Inl TypeError"

text \<open>The eight bytes of a number, most significant first, and back.\<close>

definition bytes_be :: "f64 \<Rightarrow> byte list" where
  "bytes_be w = map (\<lambda>i. ucast (drop_bit (8 * i) w)) [7, 6, 5, 4, 3, 2, 1, 0]"

definition word_be :: "byte list \<Rightarrow> f64" where
  "word_be bs = foldl (\<lambda>acc b. push_bit 8 acc OR ucast b) 0 bs"

text \<open>\<^verbatim>\<open>buffer["writeDouble" + LE_OR_BE](number)\<close> on a fresh 8-byte buffer, at offset 0.\<close>

fun writeDouble :: "endianness \<Rightarrow> f64 \<Rightarrow> byte list" where
  "writeDouble BE w = bytes_be w"
| "writeDouble LE w = rev (bytes_be w)"

text \<open>\<^verbatim>\<open>buffer["readDouble" + LE_OR_BE]()\<close>: reads eight bytes at offset 0; a shorter
  buffer makes the platform throw a RangeError.\<close>

fun readDouble :: "endianness \<Rightarrow> byte list \<Rightarrow> error + f64" where
  "readDouble BE bs = (if length bs < 8 then Inl RangeError else Inr (word_be (take 8 bs)))"
| "readDouble LE bs = (if length bs < 8 then Inl RangeError else Inr (word_be (rev (take 8 bs))))"

definition EMPTY_BUFFER :: "byte list" where
  "EMPTY_BUFFER = []"

text \<open>\<^verbatim>\<open>number == null\<close> holds for \<open>null\<close> and for \<open>undefined\<close>.\<close>

fun eq_null :: "jsval \<Rightarrow> bool" where
  "eq_null Null = True"
| "eq_null Undefined = True"
| "eq_null _ = False"

fun numberToBuffer :: "endianness \<Rightarrow> arg \<Rightarrow> error + arg" where
  "numberToBuffer e (Val number) =
     (if eq_null number then Inr (Buffer EMPTY_BUFFER)
      else and_then (mustBeNumber (Val number) False)
             (\<lambda>_. case number of Num w \<Rightarrow> Inr (Buffer (writeDouble e w)) | _ \<Rightarrow> Inl TypeError))"
| "numberToBuffer e (Buffer bs) = and_then (mustBeNumber (Buffer bs) False) (\<lambda>_. Inl TypeError)"

fun bufferToNumber :: "endianness \<Rightarrow> arg \<Rightarrow> error + arg" where
  "bufferToNumber e (Buffer bs) =
     (if length bs \<noteq> 0 then and_then (readDouble e bs) (\<lambda>w. Inr (Val (Num w))) else Inr (Val Null))"
| "bufferToNumber e (Val v) = Inl TypeError"


section \<open>Platform hashing and encoding\<close>

text \<open>
  \<^verbatim>\<open>crypto.createHash('sha1')\<close> is SHA-1 as in FIPS 180-4. The 32-bit words are integers
  in the range \<open>0 ..< 2 ^ 32\<close>, with the wrap-around of addition and rotation written out.
\<close>

type_synonym u32 = int

definition add32 :: "u32 \<Rightarrow> u32 \<Rightarrow> u32" where
  "add32 a b = (a + b) mod 2 ^ 32"

definition rotl32 :: "nat \<Rightarrow> u32 \<Rightarrow> u32" where
  "rotl32 n x = (x * 2 ^ n) mod 2 ^ 32 + x div 2 ^ (32 - n)"

definition not32 :: "u32 \<Rightarrow> u32" where
  "not32 x = 0xFFFFFFFF - x"

definition sha1_f :: "nat \<Rightarrow> u32 \<Rightarrow> u32 \<Rightarrow> u32 \<Rightarrow> u32" where
  "sha1_f t b c d =
     (if t < 20 then (b AND c) OR (not32 b AND d)
      else if t < 40 then b XOR c XOR d
      else if t < 60 then (b AND c) OR (b AND d) OR (c AND d)
      else b XOR c XOR d)"

definition sha1_k :: "nat \<Rightarrow> u32" where
  "sha1_k t =
     (if t < 20 then 0x5A827999
      else if t < 40 then 0x6ED9EBA1
      else if t < 60 then 0x8F1BBCDC
      else 0xCA62C1D6)"

definition u32_bytes :: "u32 \<Rightarrow> byte list" where
  "u32_bytes x = map (\<lambda>i. word_of_int (x div 256 ^ i)) [3, 2, 1, 0]"

definition be32 :: "byte list \<Rightarrow> u32" where
  "be32 bs = foldl (\<lambda>acc b. acc * 256 + uint b) 0 bs"

text \<open>Padding: a one bit, zeros up to 56 modulo 64 bytes, and the bit length on 8 bytes.\<close>

definition sha1_pad :: "byte list \<Rightarrow> byte list" where
  "sha1_pad m =
     m @ [0x80] @ replicate ((119 - length m mod 64) mod 64) 0 @ bytes_be (8 * of_nat (length m))"

fun chunks :: "nat \<Rightarrow> nat \<Rightarrow> 'a list \<Rightarrow> 'a list list" where
  "chunks 0 n xs = []"
| "chunks (Suc k) n xs = take n xs # chunks k n (drop n xs)"

definition sha1_schedule :: "u32 list \<Rightarrow> u32 list" where
  "sha1_schedule ws =
     foldl (\<lambda>w t. w @ [rotl32 1 (w ! (t - 3) XOR w ! (t - 8) XOR w ! (t - 14) XOR w ! (t - 16))])
       ws [16..<80]"

type_synonym sha1_state = "u32 \<times> u32 \<times> u32 \<times> u32 \<times> u32"

fun sha1_round :: "u32 list \<Rightarrow> sha1_state \<Rightarrow> nat \<Rightarrow> sha1_state" where
  "sha1_round w (a, b, c, d, e) t =
     (add32 (add32 (add32 (add32 (rotl32 5 a) (sha1_f t b c d)) e) (sha1_k t)) (w ! t),
      a, rotl32 30 b, c, d)"

fun sha1_block :: "sha1_state \<Rightarrow> byte list \<Rightarrow> sha1_state" where
  "sha1_block (h0, h1, h2, h3, h4) blk =
     (case foldl (sha1_round (sha1_schedule (map be32 (chunks 16 4 blk)))) (h0, h1, h2, h3, h4) [0..<80] of
        (a, b, c, d, e) \<Rightarrow> (add32 h0 a, add32 h1 b, add32 h2 c, add32 h3 d, add32 h4 e))"

definition sha1_init :: sha1_state where
  "sha1_init = (0x67452301, 0xEFCDAB89, 0x98BADCFE, 0x10325476, 0xC3D2E1F0)"

fun sha1_out :: "sha1_state \<Rightarrow> byte list" where
  "sha1_out (a, b, c, d, e) = concat (map u32_bytes [a, b, c, d, e])"

definition sha1 :: "byte list \<Rightarrow> byte list" where
  "sha1 m = sha1_out (foldl sha1_block sha1_init (chunks (length (sha1_pad m) div 64) 64 (sha1_pad m)))"

text \<open>\<^verbatim>\<open>digest('base64')\<close>: the base-64 encoding of RFC 4648, with \<open>=\<close> padding.\<close>

definition b64_alphabet :: string where
  "b64_alphabet = ''ABCDEFGHIJKLMNOPQRSTUVWXYZabcdefghijklmnopqrstuvwxyz0123456789+/''"

definition b64_char :: "nat \<Rightarrow> char" where
  "b64_char n = b64_alphabet ! n"

fun base64 :: "byte list \<Rightarrow> string" where
  "base64 [] = []"
| "base64 [a] = [b64_char (unat a div 4), b64_char (unat a mod 4 * 16), CHR ''='', CHR ''='']"
| "base64 [a, b] =
     [b64_char (unat a div 4), b64_char (unat a mod 4 * 16 + unat b div 16),
      b64_char (unat b mod 16 * 4), CHR ''='']"
| "base64 (a # b # c # rest) =
     [b64_char (unat a div 4), b64_char (unat a mod 4 * 16 + unat b div 16),
      b64_char (unat b mod 16 * 4 + unat c div 64), b64_char (unat c mod 64)] @ base64 rest"

section \<open>index.js: the due time of a request\<close>

text \<open>
  The handler reads the optional \<open>ts\<close> parameter with \<^verbatim>\<open>Number.parseFloat\<close> (the parsed
  number is the input here), rejects NaN with status 400 and otherwise takes
  \<^verbatim>\<open>Math.round(ts * 1000)\<close>; without the parameter the due time is \<^verbatim>\<open>Date.now()\<close>.
  This value is what \<^verbatim>\<open>q.enqueue\<close> receives.
\<close>

definition request_time :: "f64 option \<Rightarrow> f64 \<Rightarrow> nat + f64" where
  "request_time param now =
     (case param of
        Some ts \<Rightarrow> if is_nan ts then Inl 400 else Inr (Math_round (f64_mul ts (f64_of_int 1000)))
      | None \<Rightarrow> Inr now)"

section \<open>queue.js: message identifiers\<close>

text \<open>\<^verbatim>\<open>Float64Array.of(time)\<close> hashed as bytes: the eight bytes of the number in host order.\<close>

definition Float64Array_of :: "endianness \<Rightarrow> f64 \<Rightarrow> byte list" where
  "Float64Array_of e time = writeDouble e time"

text \<open>\<^verbatim>\<open>getMessageId(time, text)\<close>; \<open>text\<close> is given by its UTF-8 bytes, which is what
  \<^verbatim>\<open>hash.update(text)\<close> feeds to the hash. \<^verbatim>\<open>slice(0, -1)\<close> drops the last character.\<close>

definition getMessageId :: "endianness \<Rightarrow> f64 \<Rightarrow> byte list \<Rightarrow> string" where
  "getMessageId e time text = butlast (base64 (sha1 (Float64Array_of e time @ text)))"

text \<open>The identifier given to a request: the handler's due time, then \<^verbatim>\<open>enqueue\<close>'s
  \<^verbatim>\<open>getMessageId(time, text)\<close>.\<close>

definition submission_id :: "endianness \<Rightarrow> f64 option \<Rightarrow> f64 \<Rightarrow> byte list \<Rightarrow> nat + string" where
  "submission_id e param now text =
     and_then (request_time param now) (\<lambda>time. Inr (getMessageId e time text))"

section \<open>queue.js: the dispatch engine\<close>

subsection \<open>Constants and module state\<close>

definition PROCESSING_WINDOW :: f64 where
  "PROCESSING_WINDOW = f64_of_int 1000"

text \<open>The literal \<^verbatim>\<open>1.1\<close> denotes the number nearest to 11/10.\<close>

definition literal_1_1 :: f64 where
  "literal_1_1 = 0x3FF199999999999A"

definition PROCESSING_RETRY_DELAY :: f64 where
  "PROCESSING_RETRY_DELAY = Math_ceil (f64_mul literal_1_1 PROCESSING_WINDOW)"

definition PROCESSING_BATCH_SIZE :: nat where
  "PROCESSING_BATCH_SIZE = 30"

definition QUEUE :: string where
  "QUEUE = ''msgq''"

definition CONTENT_PREFIX :: string where
  "CONTENT_PREFIX = ''msg:''"

definition LOCK_PREFIX :: string where
  "LOCK_PREFIX = ''lk:''"

definition NEXT_DUE_TIME_CHANNEL :: string where
  "NEXT_DUE_TIME_CHANNEL = ''ndt''"

record engine =
  latency :: f64
  nextDueTime :: jsval
  upToDate :: jsval
  inspectingQueue :: jsval
  resumeInspection :: jsval

definition initial :: engine where
  "initial = \<lparr>latency = 0, nextDueTime = Undefined, upToDate = Undefined,
              inspectingQueue = Undefined, resumeInspection = Undefined\<rparr>"

subsection \<open>Store requests, closures and effects\<close>

datatype bound = NegInf | Score f64

datatype command =
    SET string "byte list"
  | SET_PX_NX string "byte list" f64
  | GET string
  | DEL "string list"
  | ZADD string f64 string
  | ZREM string string
  | ZRANGE_WITHSCORES string int int
  | ZRANGEBYSCORE string bound bound nat nat
  | ZREVRANGEBYSCORE string bound bound nat nat
  | PUBLISH string "byte list"
  | WATCH string

datatype request = Cmd command | Batch "command list" | Multi "command list"

text \<open>
  The variables captured by the callbacks: \<open>dueTime\<close> of an \<open>inspectQueue\<close> call
  (captured by \<open>cb\<close>) and \<open>reverse\<close> of an \<open>actuallyInspectQueue\<close> call; then
  \<open>response\<close>, \<open>i\<close> and \<open>leftovers\<close> of one batch, captured by the callback \<open>c\<close>.
\<close>

record pass_scope =
  dueTime :: f64
  reverse :: jsval

record batch_scope =
  pass :: pass_scope
  response :: "string list"
  idx :: nat
  leftovers :: jsval

text \<open>The only callback ever handed to \<open>tryDequeuing\<close> is the closure \<open>c\<close> of a batch.\<close>

datatype callback = Closure_c batch_scope

text \<open>A pending callback: what runs when the store replies or when a scheduled call fires.\<close>

datatype kont =
    K_getBatch pass_scope
  | K_set string f64 callback
  | K_get string f64 callback
  | K_cleanup
  | K_actuallyInspectQueue f64
  | K_watch
  | K_zrange
  | K_publish
  | K_exec string
  | K_rollback jsval

datatype effect =
    Issue request kont
  | NextTick kont
  | SetTimeout f64 kont
  | Console_error string
  | Console_log f64 "byte list"
  | Callback jsval
  | Timer_cancel
  | Timer_trigger f64
  | Uncaught error

type_synonym outcome = "engine \<times> effect list"

definition prepend :: "effect list \<Rightarrow> outcome \<Rightarrow> outcome" where
  "prepend es r = (fst r, es @ snd r)"

subsection \<open>Freshness updates\<close>

text \<open>\<^verbatim>\<open>setNextDueTime(time)\<close>; the timer is armed three latencies early, and
  \<^verbatim>\<open>timer.trigger\<close> throws unless it is given a finite number. The call of the timer is
  the last statement and is recorded as an effect; what the call does to the timer, given
  the state in which it finds it, is in the section on \<open>Timer.js\<close>.\<close>

definition setNextDueTime :: "jsval \<Rightarrow> engine \<Rightarrow> outcome" where
  "setNextDueTime time st =
     (st\<lparr>upToDate := Bool True, nextDueTime := time\<rparr>,
      if eq_null time then [Timer_cancel]
      else (let t = f64_sub (to_number time) (f64_mul (f64_of_int 3) (latency st))
            in if is_finite t then [Timer_trigger t] else [Uncaught TypeError]))"

text \<open>The subscriber's \<^verbatim>\<open>message_buffer\<close> handler.\<close>

definition on_message :: "endianness \<Rightarrow> byte list \<Rightarrow> engine \<Rightarrow> outcome" where
  "on_message e payload st =
     (case bufferToNumber e (Buffer payload) of
        Inr (Val v) \<Rightarrow> setNextDueTime v st
      | Inr (Buffer b) \<Rightarrow> (st, [Uncaught TypeError])
      | Inl err \<Rightarrow> (st, [Uncaught err]))"

subsection \<open>Enqueue\<close>

text \<open>An element of the reply array of a transaction or batch.\<close>

datatype resp = RedisError string | Int_reply int | Str_reply string | Nil_reply

fun firstRedisError_loop :: "resp list \<Rightarrow> jsval \<Rightarrow> nat \<Rightarrow> jsval" where
  "firstRedisError_loop arr error 0 = error"
| "firstRedisError_loop arr error (Suc i) =
     (if truthy error then error
      else firstRedisError_loop arr
             (case arr ! i of RedisError m \<Rightarrow> Error m | _ \<Rightarrow> error) i)"

definition firstRedisError :: "resp list \<Rightarrow> jsval" where
  "firstRedisError arr = firstRedisError_loop arr Undefined (length arr)"

text \<open>\<^verbatim>\<open>time < nextDueTime\<close>, \<open>time\<close> being a number.\<close>

definition js_less :: "f64 \<Rightarrow> jsval \<Rightarrow> bool" where
  "js_less time v = f64_lt time (to_number v)"

definition publishes_minimum :: "f64 \<Rightarrow> engine \<Rightarrow> bool" where
  "publishes_minimum time st =
     (\<not> truthy (upToDate st) \<or> eq_null (nextDueTime st) \<or> js_less time (nextDueTime st))"

text \<open>The payload \<^verbatim>\<open>tools.numberToBuffer(time)\<close> of a publication.\<close>

definition payload :: "endianness \<Rightarrow> jsval \<Rightarrow> error + byte list" where
  "payload e time =
     and_then (numberToBuffer e (Val time))
       (\<lambda>r. case r of Buffer b \<Rightarrow> Inr b | Val v \<Rightarrow> Inl TypeError)"

definition enqueue :: "endianness \<Rightarrow> f64 \<Rightarrow> byte list \<Rightarrow> engine \<Rightarrow> outcome" where
  "enqueue e time text st =
     (let mid = getMessageId e time text;
          multi = [SET (CONTENT_PREFIX @ mid) text, ZADD QUEUE time mid]
      in if publishes_minimum time st then
           (case payload e (Num time) of
              Inl err \<Rightarrow> (st, [Uncaught err])
            | Inr b \<Rightarrow>
                (st, [Issue (Multi (multi @ [PUBLISH NEXT_DUE_TIME_CHANNEL b])) (K_exec mid)]))
         else (st, [Issue (Multi multi) (K_exec mid)]))"

text \<open>The callback of \<^verbatim>\<open>multi.exec\<close>; \<open>responses\<close> is absent when the transaction did
  not run, and then reading its length throws.\<close>

definition enqueue_exec_reply :: "string \<Rightarrow> jsval \<Rightarrow> resp list option \<Rightarrow> engine \<Rightarrow> outcome" where
  "enqueue_exec_reply mid error responses st =
     (if truthy error then (st, [Callback error])
      else case responses of
        None \<Rightarrow> (st, [Uncaught TypeError])
      | Some rs \<Rightarrow>
          if truthy (firstRedisError rs) then
            (st, [Issue (Batch [ZREM QUEUE mid, DEL [CONTENT_PREFIX @ mid]])
                    (K_rollback (firstRedisError rs))])
          else (st, (if nth_opt rs 1 \<noteq> Some (Int_reply 1)
                     then [Console_error ''Message was already present in the database.'']
                     else [])
                    @ [Callback Undefined]))"

definition rollback_reply :: "jsval \<Rightarrow> jsval \<Rightarrow> engine \<Rightarrow> outcome" where
  "rollback_reply error err st =
     (st, (if truthy err then [Console_error ''Could not rollback the write operations.''] else [])
          @ [Callback error])"

subsection \<open>The inspection loop\<close>

text \<open>The callback \<open>cb\<close> of an \<open>inspectQueue\<close> call, with its captured \<open>dueTime\<close>;
  \<^verbatim>\<open>switch (true)\<close> compares with strict equality.\<close>

definition cb :: "f64 \<Rightarrow> jsval \<Rightarrow> f64 \<Rightarrow> engine \<Rightarrow> outcome" where
  "cb due again now st =
     (let st1 = st\<lparr>inspectingQueue := Bool False\<rparr>
      in if resumeInspection st1 = Bool True then
           (st1\<lparr>resumeInspection := Bool False\<rparr>,
            [NextTick (K_actuallyInspectQueue (Math_max (to_number (nextDueTime st1)) now))])
         else if again = Bool True then
           (st1, [SetTimeout PROCESSING_RETRY_DELAY (K_actuallyInspectQueue due)])
         else (st1, [Issue (Cmd (WATCH QUEUE)) K_watch]))"

definition getBatch :: "pass_scope \<Rightarrow> effect list" where
  "getBatch ps =
     [Issue (Cmd (if truthy (reverse ps)
                  then ZREVRANGEBYSCORE QUEUE (Score (dueTime ps)) NegInf 0 PROCESSING_BATCH_SIZE
                  else ZRANGEBYSCORE QUEUE NegInf (Score (dueTime ps)) 0 PROCESSING_BATCH_SIZE))
        (K_getBatch ps)]"

definition actuallyInspectQueue :: "f64 \<Rightarrow> engine \<Rightarrow> outcome" where
  "actuallyInspectQueue due st =
     (st\<lparr>inspectingQueue := Bool True\<rparr>, getBatch \<lparr>dueTime = due, reverse = Undefined\<rparr>)"

definition inspectQueue :: "f64 \<Rightarrow> engine \<Rightarrow> outcome" where
  "inspectQueue now st =
     (if truthy (inspectingQueue st) then (st\<lparr>resumeInspection := Bool True\<rparr>, [])
      else actuallyInspectQueue (Math_max (to_number (nextDueTime st)) now) st)"

definition tryDequeuing :: "string \<Rightarrow> f64 \<Rightarrow> callback \<Rightarrow> effect list" where
  "tryDequeuing mid time callback =
     [Issue (Cmd (SET_PX_NX (LOCK_PREFIX @ mid) EMPTY_BUFFER PROCESSING_WINDOW))
        (K_set mid time callback)]"

text \<open>The callback \<open>c\<close> that a batch hands to \<open>tryDequeuing\<close> for each of its entries
  (named \<open>c_callback\<close> here).\<close>

definition c_callback :: "batch_scope \<Rightarrow> jsval \<Rightarrow> f64 \<Rightarrow> engine \<Rightarrow> outcome" where
  "c_callback bs leftover now st =
     (if truthy (resumeInspection st) then cb (dueTime (pass bs)) Undefined now st
      else let bs' = bs\<lparr>leftovers := js_or (leftovers bs) leftover, idx := idx bs + 2\<rparr>
           in if idx bs' < length (response bs') then
                (st, tryDequeuing (response bs' ! idx bs')
                       (parseInt (nth_opt (response bs') (idx bs' + 1))) (Closure_c bs'))
              else if length (response bs') < PROCESSING_BATCH_SIZE * 2 then
                cb (dueTime (pass bs')) (leftovers bs') now st
              else (st, getBatch ((pass bs')\<lparr>reverse := Bool (\<not> truthy (reverse (pass bs')))\<rparr>)))"

fun call :: "callback \<Rightarrow> jsval \<Rightarrow> f64 \<Rightarrow> engine \<Rightarrow> outcome" where
  "call (Closure_c bs) v now st = c_callback bs v now st"

text \<open>The callback of the batch fetch issued by \<open>getBatch\<close>.\<close>

definition getBatch_reply :: "pass_scope \<Rightarrow> jsval \<Rightarrow> string list \<Rightarrow> f64 \<Rightarrow> engine \<Rightarrow> outcome" where
  "getBatch_reply ps error resp now st =
     (if truthy (resumeInspection st) then cb (dueTime ps) Undefined now st
      else if truthy error then
        prepend [Console_error ''Could not get a batch of messages.'']
          (cb (dueTime ps) (Bool True) now st)
      else if length resp = 0 then cb (dueTime ps) Undefined now st
      else (st, tryDequeuing (resp ! 0) (parseInt (nth_opt resp 1))
                  (Closure_c \<lparr>pass = ps, response = resp, idx = 0, leftovers = Undefined\<rparr>)))"

subsection \<open>Dequeuing one message\<close>

text \<open>
  \<^verbatim>\<open>new Date(time)\<close> has a time value only for a finite number of magnitude at most
  8.64e15 (whose pattern is \<open>0x433EB208C2DC0000\<close>; patterns of non-negative numbers are
  ordered as the numbers are, and those of infinity and NaN lie above). Without a time
  value \<^verbatim>\<open>toISOString()\<close> throws a RangeError.
\<close>

definition date_valid :: "f64 \<Rightarrow> bool" where
  "date_valid time = (uint (time AND 0x7FFFFFFFFFFFFFFF) \<le> 0x433EB208C2DC0000)"

text \<open>\<open>doTask\<close> prints one line for the due time and the text, unless the rendering of
  the due time throws.\<close>

definition doTask :: "f64 \<Rightarrow> byte list \<Rightarrow> error + effect list" where
  "doTask time text = (if date_valid time then Inr [Console_log time text] else Inl RangeError)"

text \<open>The callback of the reservation \<^verbatim>\<open>SET lk:id '' PX 1000 NX\<close>; the reply is \<open>null\<close>
  when the key exists.\<close>

definition tryDequeuing_set_reply ::
    "string \<Rightarrow> f64 \<Rightarrow> callback \<Rightarrow> jsval \<Rightarrow> string option \<Rightarrow> f64 \<Rightarrow> engine \<Rightarrow> outcome" where
  "tryDequeuing_set_reply mid time callback error resp now st =
     prepend (if truthy error then [Console_error ''Could not reserve a message.''] else [])
       (if truthy error \<or> resp = None then call callback (Bool True) now st
        else (st, [Issue (Cmd (GET (CONTENT_PREFIX @ mid))) (K_get mid time callback)]))"

text \<open>The callback of \<^verbatim>\<open>GET msg:id\<close>.\<close>

definition tryDequeuing_get_reply ::
    "string \<Rightarrow> f64 \<Rightarrow> callback \<Rightarrow> jsval \<Rightarrow> byte list option \<Rightarrow> f64 \<Rightarrow> engine \<Rightarrow> outcome" where
  "tryDequeuing_get_reply mid time callback error resp now st =
     (if truthy error then
        prepend [Console_error ''Could not get the contents of a message.'']
          (call callback (Bool True) now st)
      else case resp of
        None \<Rightarrow>
          prepend [Console_error ''Message is missing, most probably it has just been processed.'']
            (call callback (Bool True) now st)
      | Some text \<Rightarrow>
          (case doTask time text of
             Inl err \<Rightarrow> (st, [Uncaught err])
           | Inr printed \<Rightarrow>
               prepend (printed
                        @ [Issue (Batch [ZREM QUEUE mid,
                                         DEL [CONTENT_PREFIX @ mid, LOCK_PREFIX @ mid]])
                             K_cleanup])
                 (call callback Undefined now st)))"

definition cleanup_reply :: "jsval \<Rightarrow> resp list \<Rightarrow> engine \<Rightarrow> outcome" where
  "cleanup_reply error responses st =
     (st, if truthy (js_or error (firstRedisError responses))
          then [Console_error ''Could not clean up the message from the database.''] else [])"

subsection \<open>Republishing the minimum\<close>

definition watch_reply :: "jsval \<Rightarrow> engine \<Rightarrow> outcome" where
  "watch_reply error st =
     (st, if truthy error
          then [Console_error ''Could not prepare the publishing of the next due time.'']
          else [Issue (Cmd (ZRANGE_WITHSCORES QUEUE 0 0)) K_zrange])"

definition zrange_reply :: "endianness \<Rightarrow> jsval \<Rightarrow> string list \<Rightarrow> engine \<Rightarrow> outcome" where
  "zrange_reply e error resp st =
     (st, if truthy error then [Console_error ''Could not read the next due time.'']
          else case payload e (if length resp \<noteq> 0 then Num (parseInt (nth_opt resp 1))
                               else Undefined) of
                 Inl err \<Rightarrow> [Uncaught err]
               | Inr b \<Rightarrow> [Issue (Multi [PUBLISH NEXT_DUE_TIME_CHANNEL b]) K_publish])"

definition publish_reply :: "jsval \<Rightarrow> resp list option \<Rightarrow> engine \<Rightarrow> outcome" where
  "publish_reply error responses st =
     (st, case responses of
            None \<Rightarrow> [Console_error ''Someone else will have to publish the next due time.'']
          | Some rs \<Rightarrow>
              if truthy (case nth_opt rs 0 of Some (RedisError m) \<Rightarrow> Error m | _ \<Rightarrow> error)
              then [Console_error ''Could not publish the next due time.''] else [])"

section \<open>The replica as a transition system\<close>

text \<open>
  The engine runs on one thread and is driven by events: the timer fires, the store
  replies, a scheduled call fires, the subscriber delivers a payload. The data connection
  answers its requests in the order in which they were issued, so the pending callbacks of
  store requests form a queue; scheduled calls are kept apart, and a call scheduled with
  \<^verbatim>\<open>process.nextTick\<close> runs before any other event.
\<close>

datatype reply_val =
    R_null
  | R_status string
  | R_bulk "byte list"
  | R_strings "string list"
  | R_array "resp list"

datatype event =
    Timer_fired f64
  | Replied jsval reply_val f64
  | Fired nat f64
  | Message "byte list"

datatype deferral = Tick | Timeout f64

record system =
  eng :: engine
  outstanding :: "kont list"
  scheduled :: "(deferral \<times> kont) list"
  trace :: "effect list"

fun requests_of :: "effect \<Rightarrow> kont list" where
  "requests_of (Issue r k) = [k]"
| "requests_of _ = []"

fun schedules_of :: "effect \<Rightarrow> (deferral \<times> kont) list" where
  "schedules_of (NextTick k) = [(Tick, k)]"
| "schedules_of (SetTimeout d k) = [(Timeout d, k)]"
| "schedules_of _ = []"

definition absorb :: "system \<Rightarrow> outcome \<Rightarrow> system" where
  "absorb sys r =
     sys\<lparr>eng := fst r,
         outstanding := outstanding sys @ concat (map requests_of (snd r)),
         scheduled := scheduled sys @ concat (map schedules_of (snd r)),
         trace := trace sys @ snd r\<rparr>"

text \<open>The callback of the oldest outstanding request runs on its reply; a reply of the
  wrong shape for that request is not an event of the system.\<close>

fun resume :: "endianness \<Rightarrow> kont \<Rightarrow> jsval \<Rightarrow> reply_val \<Rightarrow> f64 \<Rightarrow> engine \<Rightarrow> outcome option" where
  "resume e (K_getBatch ps) err (R_strings xs) now st = Some (getBatch_reply ps err xs now st)"
| "resume e (K_getBatch ps) err R_null now st =
     (if truthy err then Some (getBatch_reply ps err [] now st) else None)"
| "resume e (K_set mid time k) err R_null now st =
     Some (tryDequeuing_set_reply mid time k err None now st)"
| "resume e (K_set mid time k) err (R_status s) now st =
     Some (tryDequeuing_set_reply mid time k err (Some s) now st)"
| "resume e (K_get mid time k) err R_null now st =
     Some (tryDequeuing_get_reply mid time k err None now st)"
| "resume e (K_get mid time k) err (R_bulk text) now st =
     Some (tryDequeuing_get_reply mid time k err (Some text) now st)"
| "resume e K_cleanup err (R_array rs) now st = Some (cleanup_reply err rs st)"
| "resume e K_cleanup err R_null now st =
     (if truthy err then Some (cleanup_reply err [] st) else None)"
| "resume e K_watch err rv now st = Some (watch_reply err st)"
| "resume e K_zrange err (R_strings xs) now st = Some (zrange_reply e err xs st)"
| "resume e K_zrange err R_null now st =
     (if truthy err then Some (zrange_reply e err [] st) else None)"
| "resume e K_publish err (R_array rs) now st = Some (publish_reply err (Some rs) st)"
| "resume e K_publish err R_null now st = Some (publish_reply err None st)"
| "resume e (K_exec mid) err (R_array rs) now st = Some (enqueue_exec_reply mid err (Some rs) st)"
| "resume e (K_exec mid) err R_null now st = Some (enqueue_exec_reply mid err None st)"
| "resume e (K_rollback error) err rv now st = Some (rollback_reply error err st)"
| "resume e k err rv now st = None"

definition tick_pending :: "system \<Rightarrow> bool" where
  "tick_pending sys = list_ex (\<lambda>s. fst s = Tick) (scheduled sys)"

definition remove_nth :: "nat \<Rightarrow> 'a list \<Rightarrow> 'a list" where
  "remove_nth n xs = take n xs @ drop (Suc n) xs"

fun step :: "endianness \<Rightarrow> event \<Rightarrow> system \<Rightarrow> system option" where
  "step e (Fired n now) sys =
     (case nth_opt (scheduled sys) n of
        Some (s, K_actuallyInspectQueue due) \<Rightarrow>
          if tick_pending sys \<and> s \<noteq> Tick then None
          else Some (absorb (sys\<lparr>scheduled := remove_nth n (scheduled sys)\<rparr>)
                       (actuallyInspectQueue due (eng sys)))
      | _ \<Rightarrow> None)"
| "step e (Timer_fired now) sys =
     (if tick_pending sys then None else Some (absorb sys (inspectQueue now (eng sys))))"
| "step e (Replied err rv now) sys =
     (if tick_pending sys then None
      else case outstanding sys of
        [] \<Rightarrow> None
      | k # ks \<Rightarrow>
          (case resume e k err rv now (eng sys) of
             None \<Rightarrow> None
           | Some r \<Rightarrow> Some (absorb (sys\<lparr>outstanding := ks\<rparr>) r)))"
| "step e (Message bytes) sys =
     (if tick_pending sys then None else Some (absorb sys (on_message e bytes (eng sys))))"

fun run :: "endianness \<Rightarrow> event list \<Rightarrow> system \<Rightarrow> system option" where
  "run e [] sys = Some sys"
| "run e (ev # evs) sys = (case step e ev sys of None \<Rightarrow> None | Some sys' \<Rightarrow> run e evs sys')"

text \<open>A pass is in progress from the call of \<open>actuallyInspectQueue\<close> to the call of
  \<open>cb\<close>; all along it has exactly one request outstanding: its batch fetch, or the
  reservation or the content fetch of the entry it is working on.\<close>

fun pass_request :: "kont \<Rightarrow> bool" where
  "pass_request (K_getBatch ps) = True"
| "pass_request (K_set mid time k) = True"
| "pass_request (K_get mid time k) = True"
| "pass_request k = False"

definition passes_in_progress :: "system \<Rightarrow> nat" where
  "passes_in_progress sys = length (filter pass_request (outstanding sys))"

definition started :: "engine \<Rightarrow> system" where
  "started st = \<lparr>eng = st, outstanding = [], scheduled = [], trace = []\<rparr>"




text \<open>Observations on effects.\<close>

fun is_emission :: "effect \<Rightarrow> bool" where
  "is_emission (Console_log time text) = True"
| "is_emission ef = False"

fun is_publish :: "command \<Rightarrow> bool" where
  "is_publish (PUBLISH ch b) = (ch = NEXT_DUE_TIME_CHANNEL)"
| "is_publish cmd = False"

fun publishes_in_transaction :: "effect \<Rightarrow> bool" where
  "publishes_in_transaction (Issue (Multi cmds) k) = list_ex is_publish cmds"
| "publishes_in_transaction ef = False"


text \<open>One dequeuing attempt with both replies of the store: the reply to the reservation
  and, if the code then asked for the content, the reply to that.\<close>

definition dequeue_attempt ::
    "string \<Rightarrow> f64 \<Rightarrow> callback \<Rightarrow> jsval \<times> string option \<Rightarrow> jsval \<times> byte list option
      \<Rightarrow> f64 \<Rightarrow> engine \<Rightarrow> outcome" where
  "dequeue_attempt mid time k lock_reply get_reply now st =
     (let r1 = tryDequeuing_set_reply mid time k (fst lock_reply) (snd lock_reply) now st
      in if Issue (Cmd (GET (CONTENT_PREFIX @ mid))) (K_get mid time k) \<in> set (snd r1)
         then prepend (snd r1)
                (tryDequeuing_get_reply mid time k (fst get_reply) (snd get_reply) now (fst r1))
         else r1)"

section \<open>Timer.js\<close>

text \<open>
  Instants and delays of the timer are integer milliseconds, as \<^verbatim>\<open>Date.now()\<close> and the
  due times of the service are. The platform is its clock, the timeouts that are set
  (handle, instant at which it is due, callback), the number of calls of \<open>this.func\<close>
  queued with \<^verbatim>\<open>process.nextTick\<close>, and the delays that \<^verbatim>\<open>setTimeout\<close> was asked for; a
  timeout runs at the instant at which it is due. \<open>fired\<close> lists the clock readings at
  which the function given to the constructor was called.
\<close>

definition MAX_TIMEOUT :: int where
  "MAX_TIMEOUT = 0x7FFFFFFF"

datatype task = Schedule int | Func

record loop =
  clock :: int
  timeouts :: "(nat \<times> int \<times> task) list"
  ticks :: nat
  fresh :: nat
  sleeps :: "int list"
  triggerTime :: "int option"
  timer :: "nat option"
  fired :: "int list"

text \<open>The platform's \<^verbatim>\<open>setTimeout\<close>: a delay outside \<open>1 .. 2147483647\<close> is replaced by 1.\<close>

definition setTimeout :: "task \<Rightarrow> int \<Rightarrow> loop \<Rightarrow> nat \<times> loop" where
  "setTimeout t delay L =
     (fresh L,
      L\<lparr>timeouts := timeouts L
            @ [(fresh L, clock L + (if 1 \<le> delay \<and> delay \<le> 2147483647 then delay else 1), t)],
        fresh := Suc (fresh L),
        sleeps := sleeps L @ [delay]\<rparr>)"

text \<open>The closure \<open>schedule\<close> of \<open>trigger(time)\<close>.\<close>

definition schedule :: "int \<Rightarrow> loop \<Rightarrow> loop" where
  "schedule time L =
     (let delay = time - clock L
      in if delay < 1 then L\<lparr>ticks := Suc (ticks L)\<rparr>
         else (case (if delay > MAX_TIMEOUT then setTimeout (Schedule time) MAX_TIMEOUT L
                     else setTimeout Func delay L) of
                 (h, L') \<Rightarrow> L'\<lparr>timer := Some h\<rparr>))"

text \<open>
  \<open>trigger\<close> and \<open>cancel\<close> call \<^verbatim>\<open>this.timer.clearTimeout()\<close> when \<open>this.timer\<close> is
  set. The object that the platform's \<^verbatim>\<open>setTimeout\<close> returns has no such method, so the
  call throws a TypeError: the assignment to \<open>triggerTime\<close> before it has taken place,
  nothing after it, and the timeout that was set stays. Both functions return whether
  they threw, and the state.
\<close>

definition trigger :: "int \<Rightarrow> loop \<Rightarrow> (error + unit) \<times> loop" where
  "trigger time L =
     (if triggerTime L = Some time then (Inr (), L)
      else (case timer L of
              None \<Rightarrow> (Inr (), schedule time (L\<lparr>triggerTime := Some time\<rparr>))
            | Some h \<Rightarrow> (Inl TypeError, L\<lparr>triggerTime := Some time\<rparr>)))"

definition cancel :: "loop \<Rightarrow> (error + unit) \<times> loop" where
  "cancel L =
     (case timer L of
        None \<Rightarrow> (Inr (), L\<lparr>triggerTime := None\<rparr>)
      | Some h \<Rightarrow> (Inl TypeError, L\<lparr>triggerTime := None\<rparr>))"

text \<open>\<open>this.func\<close>, the wrapper built by the constructor.\<close>

definition func :: "loop \<Rightarrow> loop" where
  "func L = L\<lparr>timer := None, triggerTime := None, fired := fired L @ [clock L]\<rparr>"

fun exec :: "task \<Rightarrow> loop \<Rightarrow> loop" where
  "exec (Schedule time) L = schedule time L"
| "exec Func L = func L"

text \<open>The index of the timeout that is due first (the oldest of them, among equals).\<close>

fun earliest :: "(nat \<times> int \<times> task) list \<Rightarrow> nat" where
  "earliest [] = 0"
| "earliest [x] = 0"
| "earliest (x # y # ys) =
     (let j = Suc (earliest (y # ys))
      in if fst (snd x) \<le> fst (snd ((x # y # ys) ! j)) then 0 else j)"

text \<open>What remains to be done by a timeout: one call for \<open>this.func\<close>; for \<open>schedule\<close>, one
  call and one more for each further chunk.\<close>

fun weight :: "nat \<times> int \<times> task \<Rightarrow> nat" where
  "weight (h, due, Func) = 1"
| "weight (h, due, Schedule time) = 2 + nat ((time - due) div MAX_TIMEOUT)"

definition work :: "loop \<Rightarrow> nat" where
  "work L = ticks L + sum_list (map weight (timeouts L))"

text \<open>The event loop, left alone: queued ticks first, then the timeouts in the order in
  which they are due, the clock advancing to each.\<close>

function run_loop :: "loop \<Rightarrow> loop" where
  "run_loop L =
     (if ticks L > 0 then run_loop (func (L\<lparr>ticks := ticks L - 1\<rparr>))
      else if timeouts L = [] then L
      else (let j = earliest (timeouts L); x = timeouts L ! j
            in run_loop (exec (snd (snd x))
                 (L\<lparr>clock := max (clock L) (fst (snd x)),
                    timeouts := remove_nth j (timeouts L)\<rparr>))))"
  by pat_completeness auto

text \<open>A timer just constructed, on a platform with nothing pending.\<close>

definition new_Timer :: "int \<Rightarrow> loop" where
  "new_Timer now =
     \<lparr>clock = now, timeouts = [], ticks = 0, fresh = 0, sleeps = [],
      triggerTime = None, timer = None, fired = []\<rparr>"

section \<open>Round trip between numbers and buffers\<close>

lemma length_bytes_be: "length (bytes_be w) = 8"
  by (simp add: bytes_be_def)

lemma bit_byte_high: "8 \<le> m \<Longrightarrow> \<not> bit (b :: byte) m"
  by (auto dest: bit_imp_le_length)

lemma word_be_bytes_be: "word_be (bytes_be w) = w"
  unfolding word_be_def bytes_be_def
  apply (rule bit_word_eqI)
  apply (simp add: bit_simps less_diff_conv2 cong: conj_cong)
  subgoal for n
    apply (cases "bit w n")
     apply simp_all
    apply arith
    done
  done

lemma bytes_be_word_be8:
  "bytes_be (word_be [a, b, c, d, e, f, g, h]) = [a, b, c, d, e, f, g, h]"
  unfolding word_be_def bytes_be_def
  apply simp
  apply (intro conjI; rule bit_word_eqI; simp add: bit_simps bit_byte_high cong: conj_cong)
  done

lemma list8_cases:
  assumes "length bs = 8"
  obtains a b c d e f g h where "bs = [a, b, c, d, e, f, g, h]"
proof -
  from assms obtain a b c d e f g h where "bs = [a, b, c, d, e, f, g, h]"
    by (auto simp add: length_Suc_conv eval_nat_numeral)
  then show thesis by (rule that)
qed

lemma bytes_be_word_be:
  assumes "length bs = 8"
  shows "bytes_be (word_be bs) = bs"
proof -
  from assms obtain a b c d e f g h where "bs = [a, b, c, d, e, f, g, h]"
    by (rule list8_cases)
  then show ?thesis
    by (simp only: bytes_be_word_be8)
qed

lemma readDouble_writeDouble: "readDouble e (writeDouble e w) = Inr w"
  by (cases e) (simp_all add: length_bytes_be word_be_bytes_be)

lemma writeDouble_readDouble:
  assumes "length bs = 8"
  shows "\<exists>w. readDouble e bs = Inr w \<and> writeDouble e w = bs"
proof (cases e)
  case BE
  with assms show ?thesis by (simp add: bytes_be_word_be)
next
  case LE
  from assms have "bytes_be (word_be (rev bs)) = rev bs"
    by (simp add: bytes_be_word_be)
  with assms LE show ?thesis by simp
qed

text \<open>
  Claim C8. \<open>bufferToNumber (numberToBuffer x) = x\<close> for every number \<open>x\<close> and for
  \<open>null\<close> (which maps to the empty buffer and back), and
  \<open>numberToBuffer (bufferToNumber b) = b\<close> for every 8-byte buffer \<open>b\<close> and for the
  empty buffer, in either host byte order. Numbers are compared as bit patterns.
\<close>

theorem number_buffer_roundtrip:
  "and_then (numberToBuffer e (Val (Num x))) (bufferToNumber e) = Inr (Val (Num x))
   \<and> and_then (numberToBuffer e (Val Null)) (bufferToNumber e) = Inr (Val Null)
   \<and> (length b = 8 \<longrightarrow>
        and_then (bufferToNumber e (Buffer b)) (numberToBuffer e) = Inr (Buffer b))
   \<and> and_then (bufferToNumber e (Buffer [])) (numberToBuffer e) = Inr (Buffer [])"
proof (intro conjI impI)
  show "and_then (numberToBuffer e (Val (Num x))) (bufferToNumber e) = Inr (Val (Num x))"
    by (cases e) (simp_all add: length_bytes_be word_be_bytes_be)
  show "and_then (numberToBuffer e (Val Null)) (bufferToNumber e) = Inr (Val Null)"
    by (simp add: EMPTY_BUFFER_def)
  show "and_then (bufferToNumber e (Buffer [])) (numberToBuffer e) = Inr (Buffer [])"
    by (simp add: EMPTY_BUFFER_def)
next
  assume len: "length b = 8"
  then obtain w where "readDouble e b = Inr w" and "writeDouble e w = b"
    using writeDouble_readDouble by blast
  with len show "and_then (bufferToNumber e (Buffer b)) (numberToBuffer e) = Inr (Buffer b)"
    by simp
qed

theorem number_buffer_roundtrip_witness:
  "length [0, 0, 0, 0, 0, 0, 0xF0, 0x3F :: byte] = 8
   \<and> and_then (bufferToNumber LE (Buffer [0, 0, 0, 0, 0, 0, 0xF0, 0x3F])) (numberToBuffer LE)
       = Inr (Buffer [0, 0, 0, 0, 0, 0, 0xF0, 0x3F])"
  using number_buffer_roundtrip [of LE 0 "[0, 0, 0, 0, 0, 0, 0xF0, 0x3F]"] by simp


section \<open>Message identifiers\<close>

text \<open>The hash is checked against the standard test vector for the message \<open>abc\<close>.\<close>

lemma sha1_abc:
  "sha1 [0x61, 0x62, 0x63] =
     [0xa9, 0x99, 0x3e, 0x36, 0x47, 0x06, 0x81, 0x6a, 0xba, 0x3e,
      0x25, 0x71, 0x78, 0x50, 0xc2, 0x6c, 0x9c, 0xd0, 0xd8, 0x9d]"
  by code_simp

lemma length_sha1: "length (sha1 m) = 20"
  unfolding sha1_def
  by (cases "foldl sha1_block sha1_init (chunks (length (sha1_pad m) div 64) 64 (sha1_pad m))")
     (simp add: u32_bytes_def)

lemma length_base64: "length (base64 bs) = 4 * ((length bs + 2) div 3)"
proof (induction bs rule: base64.induct)
  case (4 a b c rest)
  have "(5 + length rest) div 3 = Suc ((length rest + 2) div 3)"
    by arith
  with 4 show ?case by simp
qed simp_all

lemma base64_Nil_iff: "base64 bs = [] \<longleftrightarrow> bs = []"
  by (cases bs rule: base64.cases) simp_all

lemma last_base64: "length bs mod 3 = 2 \<Longrightarrow> last (base64 bs) = CHR ''=''"
proof (induction bs rule: base64.induct)
  case (4 a b c rest)
  have "Suc (Suc (Suc n)) mod 3 = n mod 3" for n :: nat
    by presburger
  with 4(2) have m: "length rest mod 3 = 2"
    by simp
  then have "rest \<noteq> []" by auto
  with 4(1) m show ?case
    by (simp add: base64_Nil_iff)
qed simp_all

lemma digest_padding:
  "base64 (sha1 m) = butlast (base64 (sha1 m)) @ ''=''
   \<and> length (butlast (base64 (sha1 m))) = 27"
proof -
  have len: "length (base64 (sha1 m)) = 28"
    by (simp add: length_base64 length_sha1)
  then have ne: "base64 (sha1 m) \<noteq> []" by auto
  have "last (base64 (sha1 m)) = CHR ''=''"
    by (rule last_base64) (simp add: length_sha1)
  with ne have "base64 (sha1 m) = butlast (base64 (sha1 m)) @ ''=''"
    using append_butlast_last_id [of "base64 (sha1 m)"] by simp
  with len show ?thesis by simp
qed

lemma request_1000_48: "request_time (Some 0x3FF0020000000000) 0 = Inr 0x408F400000000000"
  by code_simp

lemma id_1000_A: "getMessageId LE 0x408F400000000000 [0x41] = ''7iuAPzrrk06uDSH4zzD/c+XLElE''"
  by code_simp

text \<open>
  Claim C2, as stated: the identifier of every submission is the stripped base-64 SHA-1 of
  the eight bytes of the due time taken before its rounding to integer milliseconds,
  followed by the message bytes. It fails for the request \<open>ts = 1.00048828125\<close> with body
  \<open>A\<close>: the due time before rounding is 1000.48828125 ms, and the identifier is computed
  from 1000 ms.
\<close>

theorem message_id_unrounded_counterexample:
  "submission_id LE (Some 0x3FF0020000000000) 0 [0x41]
   \<noteq> Inr (butlast (base64 (sha1
         (Float64Array_of LE (f64_mul 0x3FF0020000000000 (f64_of_int 1000)) @ [0x41]))))"
proof -
  have ms: "f64_mul 0x3FF0020000000000 (f64_of_int 1000) = 0x408F43E800000000"
    by code_simp
  have claimed: "butlast (base64 (sha1 (Float64Array_of LE 0x408F43E800000000 @ [0x41])))
      = ''5EJsXSHo8Ii3gQ6jcnZyEp5s/oc''"
    by code_simp
  show ?thesis
    unfolding submission_id_def ms request_1000_48 claimed by (simp add: id_1000_A)
qed

text \<open>
  Claim C2, amended: the identifier is the base-64 SHA-1 of the eight host-order bytes of
  the due time that \<open>enqueue\<close> receives, followed by the message bytes, without the final
  \<open>=\<close>; for a request with a \<open>ts\<close> parameter that due time is the already rounded
  \<open>Math.round(ts * 1000)\<close>, otherwise the clock reading. The identifier has 27 characters
  and is a function of the (rounded) due time and the text.
\<close>

theorem message_id_rounded:
  "submission_id e (Some ts) now text =
     (if is_nan ts then Inl 400
      else Inr (getMessageId e (Math_round (f64_mul ts (f64_of_int 1000))) text))
   \<and> submission_id e None now text = Inr (getMessageId e now text)
   \<and> base64 (sha1 (Float64Array_of e time @ text)) = getMessageId e time text @ ''=''
   \<and> length (getMessageId e time text) = 27"
  using digest_padding [of "Float64Array_of e time @ text"]
  by (simp add: submission_id_def request_time_def getMessageId_def)

theorem message_id_rounded_witness:
  "submission_id LE (Some 0x3FF0020000000000) 0 [0x41] = Inr ''7iuAPzrrk06uDSH4zzD/c+XLElE''
   \<and> length (getMessageId LE 0x408F400000000000 [0x41]) = 27"
proof -
  have "\<not> is_nan 0x3FF0020000000000"
    by code_simp
  moreover have "Math_round (f64_mul 0x3FF0020000000000 (f64_of_int 1000)) = 0x408F400000000000"
    using request_1000_48 by (simp add: request_time_def split: if_splits)
  ultimately show ?thesis
    using message_id_rounded [of LE "0x3FF0020000000000" 0 "[0x41]" "0x408F400000000000"]
    by (simp add: id_1000_A)
qed
section \<open>Enqueue\<close>

lemma payload_number: "payload e (Num time) = Inr (writeDouble e time)"
  by (simp add: payload_def)

lemma enqueue_effects:
  "enqueue e time text st =
     (st, [Issue (Multi ([SET (CONTENT_PREFIX @ getMessageId e time text) text,
                          ZADD QUEUE time (getMessageId e time text)]
                         @ (if publishes_minimum time st
                            then [PUBLISH NEXT_DUE_TIME_CHANNEL (writeDouble e time)] else [])))
             (K_exec (getMessageId e time text))])"
  by (simp add: enqueue_def Let_def payload_number)

text \<open>
  Claim C3. The write transaction that \<open>enqueue\<close> issues sets the content key and adds
  the queue member, and it contains the publication of the submitted time (its eight
  bytes, as the new minimum) on channel \<open>ndt\<close> if and only if \<open>upToDate\<close> is not set, or
  \<open>nextDueTime\<close> is none (\<open>null\<close>, or never assigned), or the submitted time is
  strictly less than \<open>nextDueTime\<close>; it contains no other publication.
\<close>

theorem enqueue_publishes_iff:
  "enqueue e time text st =
     (st, [Issue (Multi
             (if \<not> truthy (upToDate st) \<or> eq_null (nextDueTime st)
                 \<or> f64_lt time (to_number (nextDueTime st))
              then [SET (CONTENT_PREFIX @ getMessageId e time text) text,
                    ZADD QUEUE time (getMessageId e time text),
                    PUBLISH NEXT_DUE_TIME_CHANNEL (writeDouble e time)]
              else [SET (CONTENT_PREFIX @ getMessageId e time text) text,
                    ZADD QUEUE time (getMessageId e time text)]))
             (K_exec (getMessageId e time text))])
   \<and> (list_ex publishes_in_transaction (snd (enqueue e time text st))
        \<longleftrightarrow> (\<not> truthy (upToDate st) \<or> eq_null (nextDueTime st)
             \<or> f64_lt time (to_number (nextDueTime st))))
   \<and> NEXT_DUE_TIME_CHANNEL = ''ndt''"
  by (simp add: enqueue_effects publishes_minimum_def js_less_def NEXT_DUE_TIME_CHANNEL_def)

lemma lt_1000_2000: "f64_lt 0x408F400000000000 0x409F400000000000"
  by code_simp

lemma not_lt_2000_1000: "\<not> f64_lt 0x409F400000000000 0x408F400000000000"
  by code_simp

theorem enqueue_publishes_iff_witness:
  "snd (enqueue LE 0x408F400000000000 [0x41]
          (initial\<lparr>upToDate := Bool True, nextDueTime := Num 0x409F400000000000\<rparr>)) =
     [Issue (Multi [SET (CONTENT_PREFIX @ getMessageId LE 0x408F400000000000 [0x41]) [0x41],
                    ZADD QUEUE 0x408F400000000000 (getMessageId LE 0x408F400000000000 [0x41]),
                    PUBLISH NEXT_DUE_TIME_CHANNEL [0, 0, 0, 0, 0, 0x40, 0x8F, 0x40]])
        (K_exec (getMessageId LE 0x408F400000000000 [0x41]))]
   \<and> snd (enqueue LE 0x409F400000000000 [0x41]
          (initial\<lparr>upToDate := Bool True, nextDueTime := Num 0x408F400000000000\<rparr>)) =
     [Issue (Multi [SET (CONTENT_PREFIX @ getMessageId LE 0x409F400000000000 [0x41]) [0x41],
                    ZADD QUEUE 0x409F400000000000 (getMessageId LE 0x409F400000000000 [0x41])])
        (K_exec (getMessageId LE 0x409F400000000000 [0x41]))]"
proof -
  have bytes: "writeDouble LE 0x408F400000000000 = [0, 0, 0, 0, 0, 0x40, 0x8F, 0x40]"
    by code_simp
  show ?thesis
    using enqueue_publishes_iff [of LE "0x408F400000000000" "[0x41]"
            "initial\<lparr>upToDate := Bool True, nextDueTime := Num 0x409F400000000000\<rparr>"]
          enqueue_publishes_iff [of LE "0x409F400000000000" "[0x41]"
            "initial\<lparr>upToDate := Bool True, nextDueTime := Num 0x408F400000000000\<rparr>"]
    unfolding bytes by (simp add: lt_1000_2000 not_lt_2000_1000)
qed

lemma firstRedisError_loop_found:
  "truthy err \<Longrightarrow> firstRedisError_loop arr err n = err"
  by (cases n) simp_all

lemma firstRedisError_loop_none:
  "(\<And>i m. i < n \<Longrightarrow> arr ! i \<noteq> RedisError m)
   \<Longrightarrow> firstRedisError_loop arr Undefined n = Undefined"
proof (induction n)
  case 0
  show ?case by simp
next
  case (Suc n)
  have "\<And>m. arr ! n \<noteq> RedisError m"
    using Suc.prems [of n] by simp
  then have "(case arr ! n of RedisError m \<Rightarrow> Error m | _ \<Rightarrow> Undefined) = Undefined"
    by (cases "arr ! n") auto
  moreover have "firstRedisError_loop arr Undefined n = Undefined"
    using Suc.prems by (intro Suc.IH) simp
  ultimately show ?case by simp
qed

lemma firstRedisError_loop_some:
  "\<exists>i<n. \<exists>m. arr ! i = RedisError m
   \<Longrightarrow> \<exists>i<n. \<exists>m. arr ! i = RedisError m \<and> firstRedisError_loop arr Undefined n = Error m"
proof (induction n)
  case 0
  then show ?case by simp
next
  case (Suc n)
  show ?case
  proof (cases "arr ! n")
    case (RedisError m)
    then have "firstRedisError_loop arr Undefined (Suc n) = Error m"
      by (simp add: firstRedisError_loop_found)
    with RedisError show ?thesis by blast
  next
    case (Int_reply x)
    with Suc.prems have "\<exists>i<n. \<exists>m. arr ! i = RedisError m"
      by (metis less_Suc_eq resp.distinct(1))
    from Suc.IH [OF this] Int_reply show ?thesis
      by (auto simp add: less_Suc_eq)
  next
    case (Str_reply x)
    with Suc.prems have "\<exists>i<n. \<exists>m. arr ! i = RedisError m"
      by (metis less_Suc_eq resp.distinct(3))
    from Suc.IH [OF this] Str_reply show ?thesis
      by (auto simp add: less_Suc_eq)
  next
    case Nil_reply
    with Suc.prems have "\<exists>i<n. \<exists>m. arr ! i = RedisError m"
      by (metis less_Suc_eq resp.distinct(5))
    from Suc.IH [OF this] Nil_reply show ?thesis
      by (auto simp add: less_Suc_eq)
  qed
qed

lemma firstRedisError_some:
  assumes "RedisError m0 \<in> set rs"
  shows "\<exists>m. RedisError m \<in> set rs \<and> firstRedisError rs = Error m"
proof -
  from assms have "\<exists>i<length rs. \<exists>m. rs ! i = RedisError m"
    by (auto simp add: in_set_conv_nth)
  from firstRedisError_loop_some [OF this] show ?thesis
    unfolding firstRedisError_def by (metis nth_mem)
qed

lemma firstRedisError_none:
  assumes "\<And>m. RedisError m \<notin> set rs"
  shows "firstRedisError rs = Undefined"
  unfolding firstRedisError_def
  by (rule firstRedisError_loop_none) (metis assms nth_mem)

text \<open>
  Claim C9. When the transaction of \<open>enqueue\<close> ran and one of its operations reports an
  error, the rollback (remove the queue member, delete the content key) is issued and,
  whatever the rollback's own result, the caller gets that per-operation error; when no
  operation failed and the reply of the \<open>zadd\<close> is not 1, the duplicate is logged and
  the caller gets no error.
\<close>

theorem enqueue_rollback_and_duplicate:
  assumes "\<not> truthy error"
  shows "(RedisError m0 \<in> set rs \<longrightarrow>
            (\<exists>m. RedisError m \<in> set rs
               \<and> enqueue_exec_reply mid error (Some rs) st =
                   (st, [Issue (Batch [ZREM QUEUE mid, DEL [CONTENT_PREFIX @ mid]])
                           (K_rollback (Error m))])
               \<and> rollback_reply (Error m) err st =
                   (st, (if truthy err
                         then [Console_error ''Could not rollback the write operations.'']
                         else []) @ [Callback (Error m)])))
       \<and> ((\<forall>m. RedisError m \<notin> set rs) \<and> nth_opt rs 1 \<noteq> Some (Int_reply 1) \<longrightarrow>
            enqueue_exec_reply mid error (Some rs) st =
              (st, [Console_error ''Message was already present in the database.'',
                    Callback Undefined]))"
proof (intro conjI impI)
  assume "RedisError m0 \<in> set rs"
  then obtain m where m: "RedisError m \<in> set rs" "firstRedisError rs = Error m"
    using firstRedisError_some by blast
  with assms show "\<exists>m. RedisError m \<in> set rs
      \<and> enqueue_exec_reply mid error (Some rs) st =
          (st, [Issue (Batch [ZREM QUEUE mid, DEL [CONTENT_PREFIX @ mid]])
                  (K_rollback (Error m))])
      \<and> rollback_reply (Error m) err st =
          (st, (if truthy err
                then [Console_error ''Could not rollback the write operations.'']
                else []) @ [Callback (Error m)])"
    by (auto simp add: enqueue_exec_reply_def rollback_reply_def)
next
  assume a: "(\<forall>m. RedisError m \<notin> set rs) \<and> nth_opt rs 1 \<noteq> Some (Int_reply 1)"
  then have "firstRedisError rs = Undefined"
    by (intro firstRedisError_none) simp
  with assms a show "enqueue_exec_reply mid error (Some rs) st =
      (st, [Console_error ''Message was already present in the database.'',
            Callback Undefined])"
    by (simp add: enqueue_exec_reply_def)
qed

theorem enqueue_rollback_and_duplicate_witness:
  "(\<exists>m. RedisError m \<in> set [Str_reply ''OK'', RedisError ''WRONGTYPE'']
      \<and> enqueue_exec_reply ''x'' Null (Some [Str_reply ''OK'', RedisError ''WRONGTYPE'']) initial =
          (initial, [Issue (Batch [ZREM QUEUE ''x'', DEL [CONTENT_PREFIX @ ''x'']])
                       (K_rollback (Error m))])
      \<and> rollback_reply (Error m) Null initial = (initial, [Callback (Error m)]))
   \<and> enqueue_exec_reply ''x'' Null (Some [Str_reply ''OK'', Int_reply 0]) initial =
       (initial, [Console_error ''Message was already present in the database.'',
                  Callback Undefined])"
  using enqueue_rollback_and_duplicate
          [of Null "''WRONGTYPE''" "[Str_reply ''OK'', RedisError ''WRONGTYPE'']" "''x''" initial Null]
        enqueue_rollback_and_duplicate
          [of Null "''WRONGTYPE''" "[Str_reply ''OK'', Int_reply 0]" "''x''" initial Null]
  by (simp add: nth_opt_def)
section \<open>Dequeuing one message\<close>

lemma cb_effects:
  "snd (cb due again now st) =
     (if resumeInspection st = Bool True then
        [NextTick (K_actuallyInspectQueue (Math_max (to_number (nextDueTime st)) now))]
      else if again = Bool True then
        [SetTimeout PROCESSING_RETRY_DELAY (K_actuallyInspectQueue due)]
      else [Issue (Cmd (WATCH QUEUE)) K_watch])"
  by (simp add: cb_def Let_def)

lemma call_no_emission: "\<not> list_ex is_emission (snd (call k v now st))"
  by (cases k) (simp add: c_callback_def Let_def cb_effects getBatch_def tryDequeuing_def)

lemma call_no_get: "Issue (Cmd (GET key)) k' \<notin> set (snd (call k v now st))"
  by (cases k) (simp add: c_callback_def Let_def cb_effects getBatch_def tryDequeuing_def)

lemma dequeue_attempt_refused:
  assumes "truthy e1 \<or> r1 = None"
  shows "dequeue_attempt mid time k (e1, r1) (e2, r2) now st =
           prepend (if truthy e1 then [Console_error ''Could not reserve a message.''] else [])
             (call k (Bool True) now st)"
  using assms call_no_get [of "CONTENT_PREFIX @ mid" "K_get mid time k" k "Bool True" now st]
  by (auto simp add: dequeue_attempt_def tryDequeuing_set_reply_def prepend_def Let_def)

lemma dequeue_attempt_reserved:
  assumes "\<not> truthy e1" and "r1 \<noteq> None"
  shows "dequeue_attempt mid time k (e1, r1) (e2, r2) now st =
           prepend [Issue (Cmd (GET (CONTENT_PREFIX @ mid))) (K_get mid time k)]
             (tryDequeuing_get_reply mid time k e2 r2 now st)"
proof -
  from assms(2) obtain ok where "r1 = Some ok" by auto
  with assms(1) show ?thesis
    by (simp add: dequeue_attempt_def tryDequeuing_set_reply_def prepend_def Let_def)
qed

text \<open>
  The reservation that \<open>tryDequeuing\<close> requests is \<^verbatim>\<open>SET lk:id '' PX 1000 NX\<close>. When the
  score of the entry has a time value as a date, the message is printed if and only if
  the reservation was obtained (no error, reply not null) and the content was there (no
  error, reply not null). Otherwise the callback is called with \<open>true\<close> (a leftover) and
  nothing was printed before. When the message is printed, the printing comes first, then
  the clean-up batch is issued, then the callback is called with no argument (no
  leftover) in the same turn, the clean-up's own callback still pending.
\<close>

lemma tryDequeuing_when_date_valid:
  assumes "date_valid time"
  shows
  "tryDequeuing mid time k =
     [Issue (Cmd (SET_PX_NX (LOCK_PREFIX @ mid) EMPTY_BUFFER PROCESSING_WINDOW)) (K_set mid time k)]
   \<and> LOCK_PREFIX = ''lk:'' \<and> EMPTY_BUFFER = [] \<and> PROCESSING_WINDOW = 0x408F400000000000
   \<and> (list_ex is_emission (snd (dequeue_attempt mid time k (e1, r1) (e2, r2) now st))
      \<longleftrightarrow> (\<not> truthy e1 \<and> r1 \<noteq> None) \<and> (\<not> truthy e2 \<and> r2 \<noteq> None))
   \<and> (\<not> ((\<not> truthy e1 \<and> r1 \<noteq> None) \<and> (\<not> truthy e2 \<and> r2 \<noteq> None)) \<longrightarrow>
        (\<exists>before. dequeue_attempt mid time k (e1, r1) (e2, r2) now st =
                    prepend before (call k (Bool True) now st)
                  \<and> \<not> list_ex is_emission before))
   \<and> (\<not> truthy e1 \<and> r1 \<noteq> None \<and> \<not> truthy e2 \<and> r2 = Some text \<longrightarrow>
        dequeue_attempt mid time k (e1, r1) (e2, r2) now st =
          prepend [Issue (Cmd (GET (CONTENT_PREFIX @ mid))) (K_get mid time k),
                   Console_log time text,
                   Issue (Batch [ZREM QUEUE mid, DEL [CONTENT_PREFIX @ mid, LOCK_PREFIX @ mid]])
                     K_cleanup]
            (call k Undefined now st))
   \<and> truthy (Bool True) \<and> \<not> truthy Undefined"
proof -
  note ne = call_no_emission [of k _ now st]
  have window: "PROCESSING_WINDOW = 0x408F400000000000"
    by code_simp
  have refused: "truthy e1 \<or> r1 = None \<Longrightarrow>
      \<exists>before. dequeue_attempt mid time k (e1, r1) (e2, r2) now st =
                 prepend before (call k (Bool True) now st)
               \<and> \<not> list_ex is_emission before"
    by (rule exI [of _ "if truthy e1 then [Console_error ''Could not reserve a message.''] else []"])
       (simp add: dequeue_attempt_refused)
  have lost: "\<not> truthy e1 \<Longrightarrow> r1 \<noteq> None \<Longrightarrow> truthy e2 \<or> r2 = None \<Longrightarrow>
      \<exists>before. dequeue_attempt mid time k (e1, r1) (e2, r2) now st =
                 prepend before (call k (Bool True) now st)
               \<and> \<not> list_ex is_emission before"
    by (rule exI [of _ "Issue (Cmd (GET (CONTENT_PREFIX @ mid))) (K_get mid time k)
          # (if truthy e2 then [Console_error ''Could not get the contents of a message.'']
             else [Console_error ''Message is missing, most probably it has just been processed.''])"])
       (auto simp add: dequeue_attempt_reserved tryDequeuing_get_reply_def prepend_def)
  have dispatched: "\<not> truthy e1 \<Longrightarrow> r1 \<noteq> None \<Longrightarrow> \<not> truthy e2 \<Longrightarrow> r2 = Some text' \<Longrightarrow>
      dequeue_attempt mid time k (e1, r1) (e2, r2) now st =
        prepend [Issue (Cmd (GET (CONTENT_PREFIX @ mid))) (K_get mid time k),
                 Console_log time text',
                 Issue (Batch [ZREM QUEUE mid, DEL [CONTENT_PREFIX @ mid, LOCK_PREFIX @ mid]])
                   K_cleanup]
          (call k Undefined now st)" for text'
    using assms
    by (simp add: dequeue_attempt_reserved tryDequeuing_get_reply_def prepend_def doTask_def)
  have emits: "list_ex is_emission (snd (dequeue_attempt mid time k (e1, r1) (e2, r2) now st))
      \<longleftrightarrow> (\<not> truthy e1 \<and> r1 \<noteq> None) \<and> (\<not> truthy e2 \<and> r2 \<noteq> None)"
  proof (cases "(\<not> truthy e1 \<and> r1 \<noteq> None) \<and> (\<not> truthy e2 \<and> r2 \<noteq> None)")
    case True
    then obtain text' where "r2 = Some text'" by auto
    with True dispatched [of text'] show ?thesis
      by (simp add: prepend_def)
  next
    case False
    then obtain before where
      "dequeue_attempt mid time k (e1, r1) (e2, r2) now st =
         prepend before (call k (Bool True) now st)"
      "\<not> list_ex is_emission before"
      using refused lost by blast
    with False ne [of "Bool True"] show ?thesis
      by (auto simp add: prepend_def list_ex_iff)
  qed
  have request: "tryDequeuing mid time k =
     [Issue (Cmd (SET_PX_NX (LOCK_PREFIX @ mid) EMPTY_BUFFER PROCESSING_WINDOW)) (K_set mid time k)]
     \<and> LOCK_PREFIX = ''lk:'' \<and> EMPTY_BUFFER = []"
    by (simp add: tryDequeuing_def LOCK_PREFIX_def EMPTY_BUFFER_def)
  from emits refused lost dispatched [of "text"] request window show ?thesis
    by simp blast
qed

text \<open>
  When the score has no time value as a date and both the reservation and the content are
  obtained, the rendering of the due time throws: nothing is printed, no clean-up is
  issued and the callback of the batch is not called.
\<close>

lemma tryDequeuing_when_date_invalid:
  assumes "\<not> date_valid time" and "\<not> truthy e1" and "\<not> truthy e2"
  shows "dequeue_attempt mid time k (e1, Some ok) (e2, Some text) now st =
           (st, [Issue (Cmd (GET (CONTENT_PREFIX @ mid))) (K_get mid time k),
                 Uncaught RangeError])"
  using assms
  by (simp add: dequeue_attempt_reserved tryDequeuing_get_reply_def prepend_def doTask_def)

lemma date_valid_limit:
  "f64_of_int 8640000000000000 = 0x433EB208C2DC0000
   \<and> date_valid 0x433EB208C2DC0000 \<and> date_valid 0xC33EB208C2DC0000
   \<and> \<not> date_valid 0x433EB208C2DC0001 \<and> \<not> date_valid 0xC33EB208C2DC0001
   \<and> \<not> date_valid f64_infinity \<and> \<not> date_valid (with_sign True f64_infinity)"
  by code_simp

text \<open>
  Claim C1 says that \<open>tryDequeuing\<close> prints the message if and only if it obtains both the
  reservation and the content. That is what the code does for every entry whose score has
  a time value as a date (lemma \<open>tryDequeuing_when_date_valid\<close>), but not for the others.
  The run below starts a pass on a queue whose only entry is \<open>a\<close> with the score
  \<open>-10000000000000000\<close> (a message submitted with \<open>ts = -1e13\<close> seconds: the score is
  \<open>Math.round(ts * 1000)\<close>). The pass requests the reservation
  \<^verbatim>\<open>SET lk:a '' PX 1000 NX\<close> and obtains it, requests the content and obtains it, and
  then throws a RangeError: the message is not printed, the clean-up is not issued, the
  callback is never called, no request is outstanding and nothing is scheduled, and
  \<open>inspectingQueue\<close> stays set.
\<close>

theorem tryDequeuing_throws_on_invalid_date:
  "Math_round (f64_mul 0xC2A2309CE5400000 (f64_of_int 1000)) = 0xC341C37937E08000
   \<and> parseInt (Some ''-10000000000000000'') = 0xC341C37937E08000
   \<and> map_option (\<lambda>sys. (trace sys, outstanding sys, scheduled sys, inspectingQueue (eng sys)))
       (run LE [Timer_fired 0x408F400000000000,
                Replied Null (R_strings [''a'', ''-10000000000000000'']) 0x408F400000000000,
                Replied Null (R_status ''OK'') 0x408F400000000000,
                Replied Null (R_bulk [0x41]) 0x408F400000000000]
          (started (initial\<lparr>upToDate := Bool True, nextDueTime := Num 0xC341C37937E08000\<rparr>)))
     = Some ([Issue (Cmd (ZRANGEBYSCORE ''msgq'' NegInf (Score 0x408F400000000000) 0 30))
                (K_getBatch \<lparr>dueTime = 0x408F400000000000, reverse = Undefined\<rparr>),
              Issue (Cmd (SET_PX_NX ''lk:a'' [] 0x408F400000000000))
                (K_set ''a'' 0xC341C37937E08000
                  (Closure_c \<lparr>pass = \<lparr>dueTime = 0x408F400000000000, reverse = Undefined\<rparr>,
                              response = [''a'', ''-10000000000000000''], idx = 0,
                              leftovers = Undefined\<rparr>)),
              Issue (Cmd (GET ''msg:a''))
                (K_get ''a'' 0xC341C37937E08000
                  (Closure_c \<lparr>pass = \<lparr>dueTime = 0x408F400000000000, reverse = Undefined\<rparr>,
                              response = [''a'', ''-10000000000000000''], idx = 0,
                              leftovers = Undefined\<rparr>)),
              Uncaught RangeError],
             [], [], Bool True)"
  by code_simp
section \<open>The retry delay and the cutoff of a pass\<close>

text \<open>The literal \<open>1.1\<close>: the pattern has mantissa 4953959590107546 and exponent -52,
  which is within half a unit in the last place of 11/10.\<close>

lemma literal_1_1_nearest:
  "f64_mant_exp literal_1_1 = (4953959590107546, - 52)
   \<and> \<bar>10 * 4953959590107546 - 11 * 2 ^ 52\<bar> * 2 \<le> (10 :: int)"
  by code_simp

lemma retry_delay_value: "PROCESSING_RETRY_DELAY = f64_of_int 1100"
  by code_simp

lemma c_callback_end_of_window:
  assumes "\<not> truthy (resumeInspection st)"
    and "length (response bs) \<le> idx bs + 2"
    and "length (response bs) < PROCESSING_BATCH_SIZE * 2"
  shows "c_callback bs leftover now st =
           cb (dueTime (pass bs)) (js_or (leftovers bs) leftover) now st"
  using assms by (simp add: c_callback_def Let_def)

lemma not_truthy_not_true: "\<not> truthy v \<Longrightarrow> v \<noteq> Bool True"
  by auto

text \<open>
  Claim C6. The delay after which a pass that reached the end of its window with
  leftovers is run again is \<open>PROCESSING_RETRY_DELAY\<close>, the ceiling of the product of the
  numbers 1.1 and 1000, which is the number 1100: the callback of the last entry of a
  batch of fewer than 30 entries, with a leftover recorded and no resumption requested,
  schedules \<open>actuallyInspectQueue\<close> with that delay.
\<close>

theorem retry_delay_1100:
  "PROCESSING_RETRY_DELAY = Math_ceil (f64_mul literal_1_1 PROCESSING_WINDOW)
   \<and> PROCESSING_WINDOW = f64_of_int 1000
   \<and> PROCESSING_RETRY_DELAY = f64_of_int 1100
   \<and> (\<not> truthy (resumeInspection st) \<and> length (response bs) \<le> idx bs + 2
        \<and> length (response bs) < PROCESSING_BATCH_SIZE * 2
        \<and> js_or (leftovers bs) leftover = Bool True \<longrightarrow>
      c_callback bs leftover now st =
        (st\<lparr>inspectingQueue := Bool False\<rparr>,
         [SetTimeout (f64_of_int 1100) (K_actuallyInspectQueue (dueTime (pass bs)))]))"
proof (intro conjI impI)
  show "PROCESSING_RETRY_DELAY = Math_ceil (f64_mul literal_1_1 PROCESSING_WINDOW)"
    by (simp add: PROCESSING_RETRY_DELAY_def)
  show "PROCESSING_WINDOW = f64_of_int 1000"
    by (simp add: PROCESSING_WINDOW_def)
  show "PROCESSING_RETRY_DELAY = f64_of_int 1100"
    by (rule retry_delay_value)
next
  assume a: "\<not> truthy (resumeInspection st) \<and> length (response bs) \<le> idx bs + 2
        \<and> length (response bs) < PROCESSING_BATCH_SIZE * 2
        \<and> js_or (leftovers bs) leftover = Bool True"
  then have "resumeInspection st \<noteq> Bool True"
    by (intro not_truthy_not_true) simp
  with a show "c_callback bs leftover now st =
        (st\<lparr>inspectingQueue := Bool False\<rparr>,
         [SetTimeout (f64_of_int 1100) (K_actuallyInspectQueue (dueTime (pass bs)))])"
    by (simp add: c_callback_end_of_window cb_def Let_def retry_delay_value)
qed

theorem retry_delay_1100_witness:
  "c_callback \<lparr>pass = \<lparr>dueTime = 0x408F400000000000, reverse = Undefined\<rparr>,
               response = [''a'', ''1000''], idx = 0, leftovers = Undefined\<rparr>
     (Bool True) 0x408F400000000000 initial =
   (initial\<lparr>inspectingQueue := Bool False\<rparr>,
    [SetTimeout (f64_of_int 1100) (K_actuallyInspectQueue 0x408F400000000000)])"
  using retry_delay_1100 [of initial
          "\<lparr>pass = \<lparr>dueTime = 0x408F400000000000, reverse = Undefined\<rparr>,
            response = [''a'', ''1000''], idx = 0, leftovers = Undefined\<rparr>"
          "Bool True" "0x408F400000000000"]
  by (simp add: initial_def js_or_def PROCESSING_BATCH_SIZE_def)






section \<open>Batches of a pass\<close>



declare step.simps [simp del]

lemma tick_pending_absorb:
  "tick_pending (absorb sys r) \<longleftrightarrow>
     tick_pending sys \<or> list_ex (\<lambda>s. fst s = Tick) (concat (map schedules_of (snd r)))"
  by (simp add: tick_pending_def absorb_def)

lemma tick_pending_outstanding [simp]:
  "tick_pending (sys\<lparr>outstanding := ks\<rparr>) = tick_pending sys"
  by (simp add: tick_pending_def)












section \<open>The reentrancy guard of the inspection loop\<close>

lemma inspectQueue_during_pass:
  assumes "truthy (inspectingQueue st)"
  shows "inspectQueue now st = (st\<lparr>resumeInspection := Bool True\<rparr>, [])"
  using assms by (simp add: inspectQueue_def)

lemma timer_during_pass:
  assumes "truthy (inspectingQueue (eng sys))" and "\<not> tick_pending sys"
  shows "\<exists>sys'. step e (Timer_fired now) sys = Some sys'
           \<and> eng sys' = (eng sys)\<lparr>resumeInspection := Bool True\<rparr>
           \<and> outstanding sys' = outstanding sys \<and> scheduled sys' = scheduled sys
           \<and> trace sys' = trace sys"
  using assms by (simp add: step.simps inspectQueue_during_pass absorb_def)

lemma cb_resumes:
  assumes "resumeInspection st = Bool True"
  shows "cb due again now st =
           (st\<lparr>inspectingQueue := Bool False, resumeInspection := Bool False\<rparr>,
            [NextTick (K_actuallyInspectQueue (Math_max (to_number (nextDueTime st)) now))])"
  using assms by (simp add: cb_def Let_def)

text \<open>
  Claim C4 says that at most one inspection pass runs at a time. The guard of
  \<open>inspectQueue\<close> and the resumption in \<open>cb\<close> behave as the claim describes (the three
  lemmas above), but the pass that \<open>cb\<close> schedules after \<open>PROCESSING_RETRY_DELAY\<close>
  starts without looking at \<open>inspectingQueue\<close>. The run below has two passes in
  progress: a pass ends with a leftover (the reservation of its only entry is refused)
  and schedules its retry; a publication of the minimum arrives and arms the timer,
  which fires and starts a pass; the retry fires while the batch fetch of that pass is
  outstanding.
\<close>

theorem two_passes_in_progress:
  "map_option (\<lambda>sys. (passes_in_progress sys, outstanding sys))
     (run LE [Timer_fired 0x408F400000000000,
              Replied Null (R_strings [''a'', ''1000'']) 0x408F400000000000,
              Replied Null R_null 0x408F400000000000,
              Message [0, 0, 0, 0, 0, 0x40, 0x8F, 0x40],
              Timer_fired 0x408F400000000000,
              Fired 0 0x40A0680000000000]
        (started (initial\<lparr>upToDate := Bool True, nextDueTime := Num 0x408F400000000000\<rparr>)))
   = Some (2, [K_getBatch \<lparr>dueTime = 0x408F400000000000, reverse = Undefined\<rparr>,
               K_getBatch \<lparr>dueTime = 0x408F400000000000, reverse = Undefined\<rparr>])"
  by code_simp
section \<open>The reprogrammable timer\<close>

text \<open>The event loop terminates: every step lowers the work that remains.\<close>

lemma earliest_less: "xs \<noteq> [] \<Longrightarrow> earliest xs < length xs"
  by (induction xs rule: earliest.induct) (simp_all add: Let_def)

lemma sum_remove_nth:
  fixes f :: "'a \<Rightarrow> nat"
  assumes "j < length xs"
  shows "sum_list (map f (remove_nth j xs)) + f (xs ! j) = sum_list (map f xs)"
proof -
  have "sum_list (map f xs) = sum_list (map f (take j xs @ xs ! j # drop (Suc j) xs))"
    using id_take_nth_drop [OF assms] by (rule arg_cong)
  then show ?thesis
    by (simp add: remove_nth_def)
qed

lemma chunk_weight:
  assumes "due \<le> now" and "time - now > MAX_TIMEOUT"
  shows "nat ((time - (now + MAX_TIMEOUT)) div MAX_TIMEOUT) < nat ((time - due) div MAX_TIMEOUT)"
  using assms unfolding MAX_TIMEOUT_def by arith

lemma work_schedule:
  assumes "due \<le> clock L"
  shows "work (schedule time L) < work L + weight (h, due, Schedule time)"
proof -
  consider "time - clock L < 1" | "time - clock L > MAX_TIMEOUT"
    | "1 \<le> time - clock L" "time - clock L \<le> MAX_TIMEOUT"
    by linarith
  then show ?thesis
  proof cases
    case 1
    then show ?thesis
      by (simp add: schedule_def work_def Let_def)
  next
    case 2
    then have "\<not> time - clock L < 1"
      by (simp add: MAX_TIMEOUT_def)
    with 2 chunk_weight [OF assms 2] show ?thesis
      by (simp add: schedule_def setTimeout_def work_def MAX_TIMEOUT_def Let_def)
  next
    case 3
    then show ?thesis
      by (simp add: schedule_def setTimeout_def work_def Let_def)
  qed
qed

termination run_loop
proof (relation "measure work")
  show "wf (measure work)" by simp
next
  fix L :: loop
  assume "0 < ticks L"
  then show "(func (L\<lparr>ticks := ticks L - 1\<rparr>), L) \<in> measure work"
    by (simp add: work_def func_def)
next
  fix L :: loop and j x
  assume a: "\<not> 0 < ticks L" "timeouts L \<noteq> []" "j = earliest (timeouts L)" "x = timeouts L ! j"
  define L1 where "L1 = L\<lparr>clock := max (clock L) (fst (snd x)), timeouts := remove_nth j (timeouts L)\<rparr>"
  from a have j: "j < length (timeouts L)"
    by (simp add: earliest_less)
  have w: "work L1 + weight x = work L"
    using sum_remove_nth [OF j, of weight] a by (simp add: work_def L1_def)
  obtain h due t where x: "x = (h, due, t)"
    by (cases x) auto
  have "work (exec t L1) < work L"
  proof (cases t)
    case (Schedule time)
    have "due \<le> clock L1"
      by (simp add: L1_def x)
    from work_schedule [OF this, of time h] w show ?thesis
      by (simp add: Schedule x)
  next
    case Func
    with w show ?thesis
      by (simp add: x func_def work_def)
  qed
  then show "(exec (snd (snd x)) (L\<lparr>clock := max (clock L) (fst (snd x)), timeouts := remove_nth j (timeouts L)\<rparr>), L) \<in> measure work"
    by (simp add: x L1_def)
qed

declare run_loop.simps [simp del]

lemma run_loop_tick:
  assumes "ticks L = Suc n"
  shows "run_loop L = run_loop (func (L\<lparr>ticks := n\<rparr>))"
  using assms by (subst run_loop.simps) simp

lemma run_loop_idle:
  assumes "ticks L = 0" and "timeouts L = []"
  shows "run_loop L = L"
  using assms by (subst run_loop.simps) simp

lemma run_loop_single:
  assumes "ticks L = 0" and "timeouts L = [(h, due, t)]"
  shows "run_loop L = run_loop (exec t (L\<lparr>clock := max (clock L) due, timeouts := []\<rparr>))"
  using assms by (subst run_loop.simps) (simp add: remove_nth_def)

text \<open>From a platform with nothing pending, \<open>schedule\<close> leads to one call of the function,
  at the requested instant (or at once when that instant is not in the future), after
  sleeps that each are within the platform's range and together cover the wait.\<close>

lemma schedule_fires:
  assumes "ticks L = 0" and "timeouts L = []"
  shows "fired (run_loop (schedule t L)) = fired L @ [max t (clock L)]
       \<and> ticks (run_loop (schedule t L)) = 0 \<and> timeouts (run_loop (schedule t L)) = []
       \<and> timer (run_loop (schedule t L)) = None \<and> triggerTime (run_loop (schedule t L)) = None
       \<and> (\<exists>ds. sleeps (run_loop (schedule t L)) = sleeps L @ ds
              \<and> (\<forall>d \<in> set ds. 1 \<le> d \<and> d \<le> MAX_TIMEOUT)
              \<and> sum_list ds = max 0 (t - clock L))"
  using assms
proof (induction "nat (t - clock L)" arbitrary: L rule: less_induct)
  case less
  consider "t - clock L < 1" | "1 \<le> t - clock L" "t - clock L \<le> MAX_TIMEOUT"
    | "t - clock L > MAX_TIMEOUT"
    by linarith
  then show ?case
  proof cases
    case 1
    define L1 where "L1 = func (L\<lparr>ticks := 0\<rparr>)"
    from 1 have s: "schedule t L = L\<lparr>ticks := Suc 0\<rparr>"
      using less.prems by (simp add: schedule_def Let_def)
    have "run_loop (schedule t L) = run_loop L1"
      unfolding s L1_def by (subst run_loop_tick [where n = 0]) simp_all
    also have "\<dots> = L1"
      using less.prems by (intro run_loop_idle) (simp_all add: L1_def func_def)
    finally show ?thesis
      using 1 less.prems by (simp add: L1_def func_def)
  next
    case 2
    define L1 where "L1 = L\<lparr>timeouts := [(fresh L, t, Func)], fresh := Suc (fresh L),
        sleeps := sleeps L @ [t - clock L], timer := Some (fresh L)\<rparr>"
    define L2 where "L2 = func (L1\<lparr>clock := max (clock L1) t, timeouts := []\<rparr>)"
    from 2 have s: "schedule t L = L1"
      using less.prems
      by (simp add: schedule_def Let_def setTimeout_def L1_def MAX_TIMEOUT_def)
    have "run_loop L1 = run_loop L2"
      unfolding L2_def using less.prems
      by (subst run_loop_single [where h = "fresh L" and due = t and t = Func])
         (simp_all add: L1_def)
    also have "\<dots> = L2"
      by (intro run_loop_idle) (simp_all add: L2_def L1_def func_def less.prems)
    finally show ?thesis
      using 2 less.prems by (simp add: s L2_def L1_def func_def)
  next
    case 3
    define L1 where "L1 = L\<lparr>timeouts := [(fresh L, clock L + MAX_TIMEOUT, Schedule t)],
        fresh := Suc (fresh L), sleeps := sleeps L @ [MAX_TIMEOUT], timer := Some (fresh L)\<rparr>"
    define L2 where "L2 = L1\<lparr>clock := clock L + MAX_TIMEOUT, timeouts := []\<rparr>"
    from 3 have s: "schedule t L = L1"
      using less.prems
      by (simp add: schedule_def Let_def setTimeout_def L1_def MAX_TIMEOUT_def)
    have r: "run_loop L1 = run_loop (schedule t L2)"
      using less.prems
      by (subst run_loop_single
            [where h = "fresh L" and due = "clock L + MAX_TIMEOUT" and t = "Schedule t"])
         (simp_all add: L1_def L2_def MAX_TIMEOUT_def)
    have smaller: "nat (t - clock L2) < nat (t - clock L)"
      using 3 by (simp add: L2_def L1_def MAX_TIMEOUT_def)
    have q: "ticks L2 = 0" "timeouts L2 = []"
      using less.prems by (simp_all add: L2_def L1_def)
    from less.hyps [OF smaller q] obtain ds where ih:
      "fired (run_loop (schedule t L2)) = fired L2 @ [max t (clock L2)]"
      "ticks (run_loop (schedule t L2)) = 0" "timeouts (run_loop (schedule t L2)) = []"
      "timer (run_loop (schedule t L2)) = None" "triggerTime (run_loop (schedule t L2)) = None"
      "sleeps (run_loop (schedule t L2)) = sleeps L2 @ ds"
      "\<forall>d \<in> set ds. 1 \<le> d \<and> d \<le> MAX_TIMEOUT"
      "sum_list ds = max 0 (t - clock L2)"
      by blast
    have f2: "sleeps L2 = sleeps L @ [MAX_TIMEOUT]" "fired L2 = fired L"
        "clock L2 = clock L + MAX_TIMEOUT"
      by (simp_all add: L2_def L1_def)
    have "sleeps (run_loop (schedule t L)) = sleeps L @ (MAX_TIMEOUT # ds)"
      unfolding s r using ih(6) f2 by simp
    moreover have "\<forall>d \<in> set (MAX_TIMEOUT # ds). 1 \<le> d \<and> d \<le> MAX_TIMEOUT"
      using ih(7) by (simp add: MAX_TIMEOUT_def)
    moreover have "sum_list (MAX_TIMEOUT # ds) = max 0 (t - clock L)"
      using ih(8) 3 f2 by (simp add: MAX_TIMEOUT_def)
    ultimately have "\<exists>ds. sleeps (run_loop (schedule t L)) = sleeps L @ ds
        \<and> (\<forall>d \<in> set ds. 1 \<le> d \<and> d \<le> MAX_TIMEOUT) \<and> sum_list ds = max 0 (t - clock L)"
      by blast
    moreover have "fired (run_loop (schedule t L)) = fired L @ [max t (clock L)]"
      unfolding s r using ih(1) 3 f2 by (simp add: MAX_TIMEOUT_def)
    moreover have "ticks (run_loop (schedule t L)) = 0" "timeouts (run_loop (schedule t L)) = []"
        "timer (run_loop (schedule t L)) = None" "triggerTime (run_loop (schedule t L)) = None"
      unfolding s r using ih(2,3,4,5) by simp_all
    ultimately show ?thesis
      by simp
  qed
qed

text \<open>
  For every instant \<open>t\<close> further away than the platform's maximum delay of 2147483647 ms,
  \<open>trigger(t)\<close> on a timer that is not armed returns normally and, the event loop left
  alone, terminates (\<open>run_loop\<close> is total) and calls the function exactly once, when the
  clock reads \<open>t\<close>; the sleeps requested from the platform are each between 1 and the
  maximum, there are at least two of them, and they add up to the wait \<open>t - now\<close>.
\<close>

lemma trigger_idle_beyond_max_delay:
  assumes "t - clock L > MAX_TIMEOUT"
    and "ticks L = 0"
    and "timeouts L = []"
    and "timer L = None"
    and "triggerTime L \<noteq> Some t"
  shows "fst (trigger t L) = Inr ()
       \<and> fired (run_loop (snd (trigger t L))) = fired L @ [t]
       \<and> ticks (run_loop (snd (trigger t L))) = 0
       \<and> timeouts (run_loop (snd (trigger t L))) = []
       \<and> timer (run_loop (snd (trigger t L))) = None
       \<and> triggerTime (run_loop (snd (trigger t L))) = None
       \<and> (\<exists>ds. sleeps (run_loop (snd (trigger t L))) = sleeps L @ ds
              \<and> (\<forall>d \<in> set ds. 1 \<le> d \<and> d \<le> MAX_TIMEOUT)
              \<and> sum_list ds = t - clock L \<and> 2 \<le> length ds)"
proof -
  define L0 where "L0 = L\<lparr>triggerTime := Some t\<rparr>"
  have tr: "trigger t L = (Inr (), schedule t L0)"
    using assms(4,5) by (simp add: trigger_def L0_def)
  have q: "ticks L0 = 0" "timeouts L0 = []" "clock L0 = clock L" "sleeps L0 = sleeps L"
      "fired L0 = fired L"
    using assms(2,3) by (simp_all add: L0_def)
  from schedule_fires [OF q(1,2), of t] obtain ds where r:
    "fired (run_loop (schedule t L0)) = fired L0 @ [max t (clock L0)]"
    "ticks (run_loop (schedule t L0)) = 0" "timeouts (run_loop (schedule t L0)) = []"
    "timer (run_loop (schedule t L0)) = None" "triggerTime (run_loop (schedule t L0)) = None"
    "sleeps (run_loop (schedule t L0)) = sleeps L0 @ ds"
    "\<forall>d \<in> set ds. 1 \<le> d \<and> d \<le> MAX_TIMEOUT"
    "sum_list ds = max 0 (t - clock L0)"
    by blast
  have "2 \<le> length ds"
  proof (rule ccontr)
    assume "\<not> 2 \<le> length ds"
    then have "length ds = 0 \<or> length ds = Suc 0"
      by arith
    then have "ds = [] \<or> (\<exists>d. ds = [d])"
      by (auto simp add: length_Suc_conv)
    with r(7,8) assms(1) q(3) show False
      by (auto simp add: MAX_TIMEOUT_def)
  qed
  with r q assms(1) show ?thesis
    unfolding tr by (auto simp add: MAX_TIMEOUT_def)
qed

text \<open>On a timer that is armed, \<open>trigger\<close> for another instant and \<open>cancel\<close> throw, and the
  timeout that was set stays.\<close>

lemma trigger_armed_throws:
  assumes "timer L = Some h" and "triggerTime L \<noteq> Some t"
  shows "trigger t L = (Inl TypeError, L\<lparr>triggerTime := Some t\<rparr>)"
    and "cancel L = (Inl TypeError, L\<lparr>triggerTime := None\<rparr>)"
  using assms by (simp_all add: trigger_def cancel_def)

text \<open>
  Claim C7 says that \<open>trigger(t)\<close>, for every instant \<open>t\<close> further away than the platform's
  maximum delay of 2147483647 ms, sleeps in chunks of at most that maximum and calls the
  function exactly once, at \<open>t\<close>. That is what the code does on a timer that is not armed
  (lemma \<open>trigger_idle_beyond_max_delay\<close>). On a timer that is armed it does not: below, a
  timer built at instant 0 is armed for the instant 1000 and then triggered for the
  instant 5000000000. The second call throws a TypeError; the event loop left alone, the
  function is called once, at the instant 1000 and not at 5000000000, after the one sleep
  of 1000 ms that the first call requested.
\<close>

theorem trigger_throws_when_armed:
  "fst (trigger 1000 (new_Timer 0)) = Inr ()
   \<and> timer (snd (trigger 1000 (new_Timer 0))) = Some 0
   \<and> 5000000000 - clock (snd (trigger 1000 (new_Timer 0))) > MAX_TIMEOUT
   \<and> fst (trigger 5000000000 (snd (trigger 1000 (new_Timer 0)))) = Inl TypeError
   \<and> fired (run_loop (snd (trigger 5000000000 (snd (trigger 1000 (new_Timer 0)))))) = [1000]
   \<and> sleeps (run_loop (snd (trigger 5000000000 (snd (trigger 1000 (new_Timer 0)))))) = [1000]
   \<and> timeouts (run_loop (snd (trigger 5000000000 (snd (trigger 1000 (new_Timer 0)))))) = []"
  by code_simp

end
